theory Spec2Isabelle
  imports Complex_Main
begin

section \<open>Conventions of the embedding\<close>

text \<open>
  The Python sources under study are \<^verbatim>\<open>observer.py\<close>, \<^verbatim>\<open>reasoner.py\<close>, \<^verbatim>\<open>decision.py\<close>,
  \<^verbatim>\<open>executor.py\<close>, \<^verbatim>\<open>learner.py\<close> and \<^verbatim>\<open>agent.py\<close>.

  \<^item> Python floats are modelled as exact rationals (\<^typ>\<open>rat\<close>): comparisons against the
    thresholds and the divisions are those of the source, without binary rounding.
  \<^item> Python dictionaries whose iteration order is observable (\<^verbatim>\<open>min(d.items(), key=...)\<close>)
    are association lists in insertion order.
  \<^item> Mutation of \<^verbatim>\<open>self\<close> is explicit state passing; the pending-approval file and the
    simulator callback are fields of an explicit environment; every reading of
    \<^verbatim>\<open>time.time()\<close> is an argument.
  \<^item> A leading underscore of a Python name is dropped (\<^verbatim>\<open>_latency_p95\<close> is \<open>latency_p95\<close>).
\<close>

subsection \<open>Strings\<close>

text \<open>\<^verbatim>\<open>sub in s\<close> for strings: \<open>sub\<close> occurs as a contiguous block of \<open>s\<close>.\<close>

fun starts_with :: "string \<Rightarrow> string \<Rightarrow> bool" where
  "starts_with [] s = True"
| "starts_with (p # ps) [] = False"
| "starts_with (p # ps) (c # cs) = (p = c \<and> starts_with ps cs)"

fun str_contains :: "string \<Rightarrow> string \<Rightarrow> bool" where
  "str_contains sub [] = (sub = [])"
| "str_contains sub (c # cs) = (starts_with sub (c # cs) \<or> str_contains sub cs)"

text \<open>
  \<^verbatim>\<open>str.upper()\<close>. A Python string is its UTF-8 bytes here. On a string of ASCII
  characters \<^verbatim>\<open>upper\<close> maps the letters a to z to A to Z and leaves the rest. On any other
  string its result follows the Unicode case tables (it may even change the length), which
  are not part of the sources: there the result is that of the first argument \<open>uni\<close>, about
  which nothing is assumed, so that what is proved holds whatever those tables say.
\<close>

definition upper_char :: "char \<Rightarrow> char" where
  "upper_char c =
     (case map_of (zip ''abcdefghijklmnopqrstuvwxyz'' ''ABCDEFGHIJKLMNOPQRSTUVWXYZ'') c of
        None \<Rightarrow> c
      | Some u \<Rightarrow> u)"

definition is_ascii :: "string \<Rightarrow> bool" where
  "is_ascii s = list_all (\<lambda>c. \<not> digit7 c) s"

definition upper :: "(string \<Rightarrow> string) \<Rightarrow> string \<Rightarrow> string" where
  "upper uni s = (if is_ascii s then map upper_char s else uni s)"

text \<open>
  \<^verbatim>\<open>s.replace(old, new)\<close> for a non-empty \<open>old\<close>: the occurrences are replaced from left
  to right without overlap. Both call sites pass a non-empty literal; for an empty \<open>old\<close>
  the model leaves the string unchanged.
\<close>

function str_replace :: "string \<Rightarrow> string \<Rightarrow> string \<Rightarrow> string" where
  "str_replace old new [] = []"
| "str_replace old new (c # cs) =
     (if old \<noteq> [] \<and> starts_with old (c # cs)
      then new @ str_replace old new (drop (length old) (c # cs))
      else c # str_replace old new cs)"
  by pat_completeness auto
termination
  by (relation "measure (\<lambda>(old, new, s). length s)") (auto simp: Suc_le_eq)

text \<open>\<^verbatim>\<open>s.split(sep)\<close> for a one-character separator and \<^verbatim>\<open>sep.join(parts)\<close>.\<close>

fun split_on :: "char \<Rightarrow> string \<Rightarrow> string list" where
  "split_on sep [] = [[]]"
| "split_on sep (c # cs) =
     (case split_on sep cs of
        [] \<Rightarrow> [[c]]
      | p # ps \<Rightarrow> if c = sep then [] # p # ps else (c # p) # ps)"

fun join :: "string \<Rightarrow> string list \<Rightarrow> string" where
  "join sep [] = []"
| "join sep [p] = p"
| "join sep (p # q # ps) = p @ sep @ join sep (q # ps)"

subsection \<open>Number formatting\<close>

text \<open>
  \<^verbatim>\<open>str(n)\<close> for integers and the fixed-point formats \<^verbatim>\<open>{x:.2f}\<close>, \<^verbatim>\<open>{x:.0f}\<close>,
  \<^verbatim>\<open>{x:.1%}\<close> of the f-strings, on exact rationals, rounding half to even.
\<close>

definition digit_char :: "nat \<Rightarrow> char" where
  "digit_char n = ''0123456789'' ! (n mod 10)"

fun str_nat :: "nat \<Rightarrow> string" where
  "str_nat n = (if n < 10 then [digit_char n] else str_nat (n div 10) @ [digit_char n])"

declare str_nat.simps [simp del]

definition str_int :: "int \<Rightarrow> string" where
  "str_int i = (if i < 0 then ''-'' @ str_nat (nat (- i)) else str_nat (nat i))"

definition round_half_even :: "rat \<Rightarrow> int" where
  "round_half_even q =
     (let f = \<lfloor>q\<rfloor>; r = q - of_int f
      in if r < 1 / 2 then f else if 1 / 2 < r then f + 1 else if even f then f else f + 1)"

definition fmt_fixed :: "nat \<Rightarrow> rat \<Rightarrow> string" where
  "fmt_fixed d x =
     (let n = nat (round_half_even (\<bar>x\<bar> * 10 ^ d));
          ip = str_nat (n div 10 ^ d);
          fp = str_nat (n mod 10 ^ d)
      in (if x < 0 then ''-'' else '''') @ ip @
         (if d = 0 then '''' else ''.'' @ replicate (d - length fp) (CHR ''0'') @ fp))"

definition fmt_percent :: "nat \<Rightarrow> rat \<Rightarrow> string" where
  "fmt_percent d x = fmt_fixed d (x * 100) @ ''%''"

definition str_bool :: "bool \<Rightarrow> string" where
  "str_bool b = (if b then ''True'' else ''False'')"

definition str_opt :: "string option \<Rightarrow> string" where
  "str_opt t = (case t of None \<Rightarrow> ''None'' | Some s \<Rightarrow> s)"

section \<open>Data model (\<^verbatim>\<open>models.py\<close>)\<close>

text \<open>
  The fields are those the sources read and write. The metrics attributes that
  \<^verbatim>\<open>observer.py\<close> attaches after construction and that the consumers read through
  \<^verbatim>\<open>getattr(metrics, name, None)\<close> are optional: \<open>None\<close> is an absent attribute. The
  uncertainty of a hypothesis is optional too: \<^verbatim>\<open>reason\<close> tests it against \<^verbatim>\<open>None\<close>, which
  is its value on a hypothesis built without it.
\<close>

datatype PaymentOutcome = SUCCESS | FAILED | PENDING | TIMEOUT

datatype ErrorCode =
  NONE | INSUFFICIENT_FUNDS | ISSUER_UNAVAILABLE | NETWORK_TIMEOUT | INVALID_CARD
  | RATE_LIMITED | UNKNOWN

fun error_code_value :: "ErrorCode \<Rightarrow> string" where
  "error_code_value NONE = ''none''"
| "error_code_value INSUFFICIENT_FUNDS = ''insufficient_funds''"
| "error_code_value ISSUER_UNAVAILABLE = ''issuer_unavailable''"
| "error_code_value NETWORK_TIMEOUT = ''network_timeout''"
| "error_code_value INVALID_CARD = ''invalid_card''"
| "error_code_value RATE_LIMITED = ''rate_limited''"
| "error_code_value UNKNOWN = ''unknown''"

record PaymentEvent =
  event_id :: string
  issuer_bank :: string
  payment_method :: string
  merchant_id :: "string option"
  latency_ms :: rat
  retries :: int
  outcome :: PaymentOutcome
  error_code :: ErrorCode
  timestamp :: rat
  total_attempts :: "int option"
  estimated_cost :: "rat option"

record WindowMetrics =
  window_id :: string
  start_ts :: rat
  end_ts :: rat
  success_rate :: rat
  p95_latency_ms :: rat
  retry_amplification :: rat
  error_distribution :: "(string \<times> rat) list"
  success_rate_by_issuer :: "(string \<times> rat) list"
  sample_count :: int
  success_rate_by_merchant :: "(string \<times> rat) list option"
  attempt_amplification_by_merchant :: "(string \<times> rat) list option"
  avg_cost_by_merchant :: "(string \<times> rat) list option"
  attempt_amplification :: "rat option"
  average_estimated_cost :: "rat option"

record Hypothesis =
  cause :: string
  confidence :: rat
  evidence :: string
  source :: string
  uncertainty :: "rat option"

definition REROUTE :: string where "REROUTE = ''reroute''"
definition RETRY_POLICY :: string where "RETRY_POLICY = ''retry_policy''"
definition SUPPRESS :: string where "SUPPRESS = ''suppress''"
definition NO_OP :: string where "NO_OP = ''no_op''"

datatype pval = PNone | PBool bool | PInt int | PNum rat | PStr string

record Action =
  action_type :: string
  target :: "string option"
  params :: "(string \<times> pval) list"
  risk_score :: rat
  reason_text :: string

record DecisionTrace =
  hypothesis :: "Hypothesis option"
  action :: Action
  trace_risk_score :: rat
  reasoning :: string
  trace_timestamp :: rat

text \<open>The metrics summary that \<^verbatim>\<open>_metrics_snapshot\<close> builds (a dictionary with fixed keys).\<close>

record snapshot =
  snap_success_rate :: rat
  snap_p95_latency_ms :: rat
  snap_retry_amplification :: rat
  snap_sample_count :: int
  snap_average_estimated_cost :: "rat option"
  snap_attempt_amplification :: "rat option"

record OutcomeRecord =
  context_snapshot :: snapshot
  oc_action :: Action
  outcome_metrics :: snapshot
  helped :: bool
  rollback_applied :: bool

section \<open>Learner (\<^verbatim>\<open>learner.py\<close>)\<close>

definition HELPED_SUCCESS_IMPROVEMENT :: rat where "HELPED_SUCCESS_IMPROVEMENT = 0.03"
definition HELPED_LATENCY_REDUCTION :: rat where "HELPED_LATENCY_REDUCTION = 0.15"
definition HARMFUL_COST_INCREASE :: rat where "HARMFUL_COST_INCREASE = 0.04"
definition HARMFUL_ATTEMPT_AMPLIFICATION :: rat where "HARMFUL_ATTEMPT_AMPLIFICATION = 1.6"
definition MAX_OUTCOME_RECORDS :: nat where "MAX_OUTCOME_RECORDS = 500"

text \<open>One entry of \<^verbatim>\<open>_action_stats\<close>: the counters of one action type.\<close>

record action_stat =
  st_helped :: nat
  st_hurt :: nat
  st_neutral :: nat

record Learner =
  outcomes :: "OutcomeRecord list"
  context_before_action :: "snapshot option"
  action_pending :: "Action option"
  action_stats :: "(string \<times> action_stat) list"

definition Learner_init :: Learner where
  "Learner_init =
     \<lparr>outcomes = [], context_before_action = None, action_pending = None, action_stats = []\<rparr>"

definition metrics_snapshot :: "WindowMetrics \<Rightarrow> snapshot" where
  "metrics_snapshot m =
     \<lparr>snap_success_rate = success_rate m,
      snap_p95_latency_ms = p95_latency_ms m,
      snap_retry_amplification = retry_amplification m,
      snap_sample_count = sample_count m,
      snap_average_estimated_cost = average_estimated_cost m,
      snap_attempt_amplification = attempt_amplification m\<rparr>"

text \<open>\<^verbatim>\<open>_evaluate_helped\<close> returns the pair (helped, learning score).\<close>

definition evaluate_helped :: "snapshot \<Rightarrow> snapshot \<Rightarrow> bool \<Rightarrow> bool \<times> rat" where
  "evaluate_helped before after rollback =
     (if rollback then (False, - 1)
      else
        let sr_before = snap_success_rate before;
            sr_after = snap_success_rate after;
            lat_before = snap_p95_latency_ms before;
            lat_after = snap_p95_latency_ms after;
            sr_improved = (sr_after - sr_before \<ge> HELPED_SUCCESS_IMPROVEMENT);
            lat_reduced = (lat_before > 0
                           \<and> (lat_before - lat_after) / lat_before \<ge> HELPED_LATENCY_REDUCTION);
            cost_after = snap_average_estimated_cost after;
            attempt_after = snap_attempt_amplification after
        in if (case cost_after of None \<Rightarrow> False | Some c \<Rightarrow> c \<ge> HARMFUL_COST_INCREASE)
           then (False, - 1)
           else if (case attempt_after of None \<Rightarrow> False
                    | Some a \<Rightarrow> a \<ge> HARMFUL_ATTEMPT_AMPLIFICATION)
           then (False, - 1)
           else if sr_improved \<or> lat_reduced then (True, 1)
           else (False, 0))"

definition record_decision_context :: "Learner \<Rightarrow> WindowMetrics \<Rightarrow> Action \<Rightarrow> Learner" where
  "record_decision_context l metrics a =
     (if action_type a = ''no_op'' then l
      else l\<lparr>context_before_action := Some (metrics_snapshot metrics),
             action_pending := Some a\<rparr>)"

text \<open>
  The counters of an action type, \<^verbatim>\<open>{"helped": 0, "hurt": 0, "neutral": 0}\<close> when the
  type has no entry yet, and the update of one entry.
\<close>

definition stats_of :: "(string \<times> action_stat) list \<Rightarrow> string \<Rightarrow> action_stat" where
  "stats_of stats a =
     (case map_of stats a of
        None \<Rightarrow> \<lparr>st_helped = 0, st_hurt = 0, st_neutral = 0\<rparr>
      | Some s \<Rightarrow> s)"

fun stats_update ::
  "(string \<times> action_stat) list \<Rightarrow> string \<Rightarrow> action_stat \<Rightarrow> (string \<times> action_stat) list" where
  "stats_update [] a s = [(a, s)]"
| "stats_update ((k, v) # rest) a s =
     (if k = a then (k, s) # rest else (k, v) # stats_update rest a s)"

definition record_outcome :: "Learner \<Rightarrow> WindowMetrics \<Rightarrow> bool \<Rightarrow> Learner" where
  "record_outcome l metrics_after rollback =
     (case (context_before_action l, action_pending l) of
        (Some ctx, Some pending) \<Rightarrow>
          let outcome_m = metrics_snapshot metrics_after;
              (helped_flag, learning_score) = evaluate_helped ctx outcome_m rollback;
              record = \<lparr>context_snapshot = ctx, oc_action = pending,
                        outcome_metrics = outcome_m, helped = helped_flag,
                        rollback_applied = rollback\<rparr>;
              appended = outcomes l @ [record];
              kept = (if length appended > MAX_OUTCOME_RECORDS
                      then drop (length appended - MAX_OUTCOME_RECORDS) appended
                      else appended);
              a_type = action_type pending;
              old = stats_of (action_stats l) a_type;
              new = (if learning_score > 0 then old\<lparr>st_helped := st_helped old + 1\<rparr>
                     else if learning_score < 0 then old\<lparr>st_hurt := st_hurt old + 1\<rparr>
                     else old\<lparr>st_neutral := st_neutral old + 1\<rparr>)
          in \<lparr>outcomes = kept, context_before_action = None, action_pending = None,
              action_stats = stats_update (action_stats l) a_type new\<rparr>
      | _ \<Rightarrow> l)"

definition cancel_pending :: "Learner \<Rightarrow> Learner" where
  "cancel_pending l = l\<lparr>context_before_action := None, action_pending := None\<rparr>"

section \<open>Observer (\<^verbatim>\<open>observer.py\<close>)\<close>

datatype py_error = IndexError | ValueError | TypeError

record Observer =
  window_size :: int
  window_advance_events :: int
  buffer :: "PaymentEvent list"
  window_counter :: int

text \<open>
  \<^verbatim>\<open>xs[i:]\<close> with Python's rule for a negative start, and the indexed read \<^verbatim>\<open>xs[i]\<close>,
  which counts a negative \<open>i\<close> from the end and raises \<^verbatim>\<open>IndexError\<close> out of range.
\<close>

definition slice_from :: "'a list \<Rightarrow> int \<Rightarrow> 'a list" where
  "slice_from xs i =
     (if i < 0 then drop (nat (int (length xs) + i)) xs else drop (nat i) xs)"

definition py_index :: "'a list \<Rightarrow> int \<Rightarrow> py_error + 'a" where
  "py_index xs i =
     (if 0 \<le> i \<and> i < int (length xs) then Inr (xs ! nat i)
      else if i < 0 \<and> - int (length xs) \<le> i then Inr (xs ! nat (int (length xs) + i))
      else Inl IndexError)"

definition ingest :: "Observer \<Rightarrow> PaymentEvent \<Rightarrow> Observer" where
  "ingest ob e =
     (let b = buffer ob @ [e]
      in if int (length b) > window_size ob
         then ob\<lparr>buffer := slice_from b (- window_size ob)\<rparr>
         else ob\<lparr>buffer := b\<rparr>)"

definition ready :: "Observer \<Rightarrow> bool" where
  "ready ob = (int (length (buffer ob)) \<ge> window_advance_events ob)"

definition latency_p95 :: "PaymentEvent list \<Rightarrow> py_error + rat" where
  "latency_p95 events =
     (if events = [] then Inr 0
      else
        let sorted_lat = sort (map latency_ms events);
            idx = max 0 (\<lfloor>rat_of_nat (length sorted_lat) * 0.95\<rfloor> - 1)
        in py_index sorted_lat idx)"

definition success_rate_of :: "PaymentEvent list \<Rightarrow> rat" where
  "success_rate_of events =
     (if events = [] then 0
      else
        let ok = length (filter (\<lambda>e. outcome e = SUCCESS) events)
        in rat_of_nat ok / rat_of_nat (length events))"

definition retry_amplification_of :: "PaymentEvent list \<Rightarrow> rat" where
  "retry_amplification_of events =
     (if events = [] then 0
      else
        let total_retries = sum_list (map retries events)
        in rat_of_int total_retries / rat_of_nat (length events))"

definition attempt_amplification_of :: "PaymentEvent list \<Rightarrow> rat" where
  "attempt_amplification_of events =
     (let vals = List.map_filter total_attempts events
      in if vals = [] then 1
         else rat_of_int (sum_list vals) / rat_of_nat (length vals))"

definition average_estimated_cost_of :: "PaymentEvent list \<Rightarrow> rat" where
  "average_estimated_cost_of events =
     (let vals = List.map_filter estimated_cost events
      in if vals = [] then 0
         else sum_list vals / rat_of_nat (length vals))"

text \<open>
  \<^verbatim>\<open>counts[k] = counts[k] + 1\<close> on a \<^verbatim>\<open>defaultdict(int)\<close> and \<^verbatim>\<open>d[k].append(v)\<close> on a
  \<^verbatim>\<open>defaultdict(list)\<close>: a new key goes to the end, as in a Python dictionary.
\<close>

fun count_incr :: "(string \<times> nat) list \<Rightarrow> string \<Rightarrow> (string \<times> nat) list" where
  "count_incr [] k = [(k, 1)]"
| "count_incr ((k', n) # rest) k =
     (if k' = k then (k', n + 1) # rest else (k', n) # count_incr rest k)"

fun group_append :: "(string \<times> 'v list) list \<Rightarrow> string \<Rightarrow> 'v \<Rightarrow> (string \<times> 'v list) list" where
  "group_append [] k v = [(k, [v])]"
| "group_append ((k', vs) # rest) k v =
     (if k' = k then (k', vs @ [v]) # rest else (k', vs) # group_append rest k v)"

definition error_distribution_of :: "PaymentEvent list \<Rightarrow> (string \<times> rat) list" where
  "error_distribution_of events =
     (let counts = foldl (\<lambda>acc e. count_incr acc (error_code_value (error_code e))) [] events;
          n = length events
      in if n \<noteq> 0 then map (\<lambda>(k, v). (k, rat_of_nat v / rat_of_nat n)) counts else [])"

text \<open>\<^verbatim>\<open>sum(v) / len(v) if v else dflt\<close> for a list of booleans and for a list of numbers.\<close>

definition mean_bool :: "bool list \<Rightarrow> rat" where
  "mean_bool v =
     (if v = [] then 0 else rat_of_nat (length (filter id v)) / rat_of_nat (length v))"

definition mean_or :: "rat \<Rightarrow> rat list \<Rightarrow> rat" where
  "mean_or dflt v = (if v = [] then dflt else sum_list v / rat_of_nat (length v))"

definition success_rate_by_issuer_of :: "PaymentEvent list \<Rightarrow> (string \<times> rat) list" where
  "success_rate_by_issuer_of events =
     (let by_issuer =
            foldl (\<lambda>acc e. group_append acc (issuer_bank e) (outcome e = SUCCESS)) [] events
      in map (\<lambda>(issuer, v). (issuer, mean_bool v)) by_issuer)"

text \<open>\<^verbatim>\<open>if e.merchant_id:\<close> holds for a merchant id that is present and not empty.\<close>

definition merchant_key :: "PaymentEvent \<Rightarrow> string option" where
  "merchant_key e =
     (case merchant_id e of None \<Rightarrow> None | Some m \<Rightarrow> if m = [] then None else Some m)"

definition success_rate_by_merchant_of :: "PaymentEvent list \<Rightarrow> (string \<times> rat) list" where
  "success_rate_by_merchant_of events =
     (let by_merchant =
            foldl (\<lambda>acc e. case merchant_key e of
                              None \<Rightarrow> acc
                            | Some m \<Rightarrow> group_append acc m (outcome e = SUCCESS)) [] events
      in map (\<lambda>(m, v). (m, mean_bool v)) by_merchant)"

definition attempt_amplification_by_merchant_of ::
  "PaymentEvent list \<Rightarrow> (string \<times> rat) list" where
  "attempt_amplification_by_merchant_of events =
     (let by_merchant =
            foldl (\<lambda>acc e. case (merchant_key e, total_attempts e) of
                              (Some m, Some t) \<Rightarrow> group_append acc m (rat_of_int t)
                            | _ \<Rightarrow> acc) [] events
      in map (\<lambda>(m, v). (m, mean_or 1 v)) by_merchant)"

definition avg_cost_by_merchant_of :: "PaymentEvent list \<Rightarrow> (string \<times> rat) list" where
  "avg_cost_by_merchant_of events =
     (let by_merchant =
            foldl (\<lambda>acc e. case (merchant_key e, estimated_cost e) of
                              (Some m, Some c) \<Rightarrow> group_append acc m c
                            | _ \<Rightarrow> acc) [] events
      in map (\<lambda>(m, v). (m, mean_or 0 v)) by_merchant)"

text \<open>\<^verbatim>\<open>min(...)\<close> and \<^verbatim>\<open>max(...)\<close> over the timestamps of a non-empty window.\<close>

definition min_ts :: "PaymentEvent \<Rightarrow> PaymentEvent list \<Rightarrow> rat" where
  "min_ts e es = foldl min (timestamp e) (map timestamp es)"

definition max_ts :: "PaymentEvent \<Rightarrow> PaymentEvent list \<Rightarrow> rat" where
  "max_ts e es = foldl max (timestamp e) (map timestamp es)"

text \<open>
  The body shared by \<^verbatim>\<open>get_partial_metrics\<close> and \<^verbatim>\<open>get_current_metrics\<close>: the
  \<^verbatim>\<open>WindowMetrics(...)\<close> constructor call followed by the five attribute assignments.
  \<^verbatim>\<open>min\<close> and \<^verbatim>\<open>max\<close> of the timestamps raise \<^verbatim>\<open>ValueError\<close> on an empty window.
\<close>

definition build_metrics :: "string \<Rightarrow> PaymentEvent list \<Rightarrow> py_error + WindowMetrics" where
  "build_metrics wid events =
     (case events of
        [] \<Rightarrow> Inl ValueError
      | e # es \<Rightarrow>
          (case latency_p95 events of
             Inl err \<Rightarrow> Inl err
           | Inr p95 \<Rightarrow>
               Inr
                 \<lparr>window_id = wid,
                  start_ts = min_ts e es,
                  end_ts = max_ts e es,
                  success_rate = success_rate_of events,
                  p95_latency_ms = p95,
                  retry_amplification = retry_amplification_of events,
                  error_distribution = error_distribution_of events,
                  success_rate_by_issuer = success_rate_by_issuer_of events,
                  sample_count = int (length events),
                  success_rate_by_merchant = Some (success_rate_by_merchant_of events),
                  attempt_amplification_by_merchant =
                    Some (attempt_amplification_by_merchant_of events),
                  avg_cost_by_merchant = Some (avg_cost_by_merchant_of events),
                  attempt_amplification = Some (attempt_amplification_of events),
                  average_estimated_cost = Some (average_estimated_cost_of events)\<rparr>))"

text \<open>Both readers return the result together with the observer they leave behind.\<close>

definition get_partial_metrics :: "Observer \<Rightarrow> (py_error + WindowMetrics option) \<times> Observer" where
  "get_partial_metrics ob =
     (if buffer ob = [] then (Inr None, ob)
      else
        let events = slice_from (buffer ob) (- window_size ob);
            wid = ''partial-'' @ str_nat (length events)
        in (map_sum id Some (build_metrics wid events), ob))"

definition get_current_metrics :: "Observer \<Rightarrow> (py_error + WindowMetrics option) \<times> Observer" where
  "get_current_metrics ob =
     (if buffer ob = [] then (Inr None, ob)
      else
        let events = slice_from (buffer ob) (- window_size ob);
            ob' = ob\<lparr>window_counter := window_counter ob + 1\<rparr>;
            wid = ''w-'' @ str_int (window_counter ob')
        in (map_sum id Some (build_metrics wid events), ob'))"

section \<open>Reasoner (\<^verbatim>\<open>reasoner.py\<close>)\<close>

definition SUCCESS_RATE_DEGRADATION_THRESHOLD :: rat where
  "SUCCESS_RATE_DEGRADATION_THRESHOLD = 0.75"
definition P95_LATENCY_SPIKE_MS :: rat where "P95_LATENCY_SPIKE_MS = 600"
definition RETRY_AMPLIFICATION_STORM :: rat where "RETRY_AMPLIFICATION_STORM = 1.2"
definition ATTEMPT_AMPLIFICATION_STORM :: rat where "ATTEMPT_AMPLIFICATION_STORM = 1.5"
definition COST_ESCALATION_THRESHOLD :: rat where "COST_ESCALATION_THRESHOLD = 0.03"
definition MIN_SAMPLE_FOR_ACT :: int where "MIN_SAMPLE_FOR_ACT = 30"
definition CAUSE_INSUFFICIENT_SIGNAL :: string where
  "CAUSE_INSUFFICIENT_SIGNAL = ''INSUFFICIENT_SIGNAL''"

text \<open>
  \<^verbatim>\<open>max(values)\<close> of a list that its call site makes non-empty, and
  \<^verbatim>\<open>min(d.items(), key=lambda x: x[1])\<close>, which returns the first entry of least value and
  raises \<^verbatim>\<open>ValueError\<close> on the empty dictionary.
\<close>

fun max_of :: "rat list \<Rightarrow> rat" where
  "max_of [] = 0"
| "max_of (x # xs) = foldl max x xs"

fun min_by_value :: "(string \<times> rat) list \<Rightarrow> py_error + (string \<times> rat)" where
  "min_by_value [] = Inl ValueError"
| "min_by_value (x # xs) = Inr (foldl (\<lambda>best y. if snd y < snd best then y else best) x xs)"

definition compute_uncertainty ::
  "string \<Rightarrow> rat \<Rightarrow> string list \<Rightarrow> WindowMetrics \<Rightarrow> rat" where
  "compute_uncertainty c conf evidence_parts metrics =
     (if evidence_parts = [] \<or> c = ''Unknown'' \<or> c = CAUSE_INSUFFICIENT_SIGNAL
      then min 1 (max (1 - conf) 0.5)
      else
        let u1 = (if sample_count metrics < 50 then 0.25 else 0);
            u2 = (if sample_count metrics < 100 then u1 + 0.15 else u1);
            by_issuer = success_rate_by_issuer metrics;
            degraded_issuers =
              filter (\<lambda>(i, r). r < SUCCESS_RATE_DEGRADATION_THRESHOLD) by_issuer;
            u3 = (if length degraded_issuers > 1 then u2 + 0.3 else u2);
            err_dist = error_distribution metrics;
            vals = (if err_dist = [] then [0] else map snd err_dist);
            u4 = (if length err_dist > 3 \<and> max_of vals < 0.5 then u3 + 0.2 else u3)
        in min 1 u4)"

text \<open>
  \<^verbatim>\<open>_heuristic_hypothesis\<close>. The three variables \<open>cause\<close>, \<open>confidence\<close> and
  \<open>evidence_parts\<close> that the source assigns step by step are the triples \<open>s1\<close> to \<open>s5\<close>;
  \<open>issuer_step\<close> is the first of the steps, the only one that calls \<^verbatim>\<open>min\<close>.
\<close>

definition issuer_step ::
  "WindowMetrics \<Rightarrow> py_error + string \<times> rat \<times> string list" where
  "issuer_step metrics =
     (let s0 = (''Unknown'', 0 :: rat, [] :: string list)
      in if success_rate_by_issuer metrics \<noteq> [] then
           (case min_by_value (success_rate_by_issuer metrics) of
              Inl err \<Rightarrow> Inl err
            | Inr (issuer_name, rate) \<Rightarrow>
                if rate < SUCCESS_RATE_DEGRADATION_THRESHOLD
                then Inr (''Issuer_'' @ issuer_name @ ''_Degradation'', 0.85,
                          [''Success rate for '' @ issuer_name @ '' dropped to ''
                           @ fmt_percent 1 rate])
                else Inr s0)
         else Inr s0)"

definition heuristic_hypothesis :: "WindowMetrics \<Rightarrow> py_error + Hypothesis" where
  "heuristic_hypothesis metrics =
     (if sample_count metrics < MIN_SAMPLE_FOR_ACT then
        Inr \<lparr>cause = CAUSE_INSUFFICIENT_SIGNAL,
         confidence = 0,
         evidence = ''Sample count too low ('' @ str_int (sample_count metrics)
                     @ '') for reliable hypothesis.'',
         source = ''heuristic'',
         uncertainty = Some 1\<rparr>
      else
       case issuer_step metrics of
         Inl err \<Rightarrow> Inl err
       | Inr s1 \<Rightarrow>
        let s2 = (case s1 of (c, conf, ev) \<Rightarrow>
                    if retry_amplification metrics \<ge> RETRY_AMPLIFICATION_STORM
                       \<and> success_rate metrics < 0.7 \<and> conf < 0.5
                    then (''Retry_Storm'', 0.8,
                          ev @ [''Retry amplification ''
                                @ fmt_fixed 2 (retry_amplification metrics)
                                @ '' with success rate ''
                                @ fmt_percent 1 (success_rate metrics)])
                    else s1);
            s3 = (case s2 of (c, conf, ev) \<Rightarrow>
                    if p95_latency_ms metrics \<ge> P95_LATENCY_SPIKE_MS
                    then (if conf < 0.5
                          then (''Latency_Spike'', 0.75,
                                ev @ [''P95 latency '' @ fmt_fixed 0 (p95_latency_ms metrics)
                                      @ '' ms''])
                          else (c, conf,
                                ev @ [''P95 latency '' @ fmt_fixed 0 (p95_latency_ms metrics)
                                      @ '' ms'']))
                    else s2);
            s4 = (case s3 of (c, conf, ev) \<Rightarrow>
                    if success_rate metrics < SUCCESS_RATE_DEGRADATION_THRESHOLD \<and> ev = []
                    then (''General_Degradation'', 0.7,
                          ev @ [''Overall success rate ''
                                @ fmt_percent 1 (success_rate metrics)])
                    else s3);
            s5 = (case attempt_amplification metrics of
                    None \<Rightarrow> s4
                  | Some attempt_amp \<Rightarrow>
                      if attempt_amp \<ge> ATTEMPT_AMPLIFICATION_STORM
                         \<and> success_rate metrics < 0.8
                      then
                        (let ev = [''Avg attempts per txn '' @ fmt_fixed 2 attempt_amp,
                                   ''Success rate '' @ fmt_percent 1 (success_rate metrics)]
                         in case average_estimated_cost metrics of
                              None \<Rightarrow> (''Retry_Storm_Detected'', 0.85, ev)
                            | Some avg_cost \<Rightarrow>
                                if avg_cost \<ge> COST_ESCALATION_THRESHOLD
                                then (''Retry_Storm_Detected'', min 0.95 (0.85 + 0.05),
                                      ev @ [''Avg cost per txn '' @ fmt_fixed 3 avg_cost])
                                else (''Retry_Storm_Detected'', 0.85, ev))
                      else s4)
        in case s5 of (c, conf, evidence_parts) \<Rightarrow>
             let ev_text = (if evidence_parts \<noteq> [] then join '' '' evidence_parts
                            else ''No strong pattern detected.'');
                 unknown = (c = ''Unknown'' \<and> conf = 0);
                 c' = (if unknown then CAUSE_INSUFFICIENT_SIGNAL else c);
                 ev_text' =
                   (if unknown
                    then ''No strong pattern detected; insufficient signal to act (metrics stable or no clear degradation).''
                    else ev_text)
             in Inr \<lparr>cause = c', confidence = conf, evidence = ev_text',
                     source = ''heuristic'',
                     uncertainty =
                       Some (compute_uncertainty c' conf evidence_parts metrics)\<rparr>)"


section \<open>Decision engine (\<^verbatim>\<open>decision.py\<close>)\<close>

definition MIN_CONFIDENCE_TO_ACT :: rat where "MIN_CONFIDENCE_TO_ACT = 0.6"
definition REPEATED_ISSUER_WINDOW :: int where "REPEATED_ISSUER_WINDOW = 5"
definition RISK_BOOST_PER_REPEAT :: rat where "RISK_BOOST_PER_REPEAT = 0.08"
definition ROLLBACK_COUNT_FORCE_HUMAN :: int where "ROLLBACK_COUNT_FORCE_HUMAN = 2"
definition SEVERE_DEGRADATION_SUCCESS_RATE :: rat where "SEVERE_DEGRADATION_SUCCESS_RATE = 0.65"
definition UNCERTAINTY_HANDOVER_THRESHOLD :: rat where "UNCERTAINTY_HANDOVER_THRESHOLD = 0.5"
definition MULTI_MERCHANT_DEGRADED_THRESHOLD :: nat where "MULTI_MERCHANT_DEGRADED_THRESHOLD = 2"
definition MERCHANT_DEGRADED_SUCCESS_RATE :: rat where "MERCHANT_DEGRADED_SUCCESS_RATE = 0.75"
definition HIGH_COST_ESCALATION_THRESHOLD :: rat where "HIGH_COST_ESCALATION_THRESHOLD = 0.05"
definition HIGH_ATTEMPT_AMPLIFICATION :: rat where "HIGH_ATTEMPT_AMPLIFICATION = 1.6"

text \<open>
  The pending-escalation dictionary that \<^verbatim>\<open>_set_pending_escalation\<close> builds and the
  dashboard rewrites with a new status, and the decision context that \<^verbatim>\<open>run_cycle\<close>
  builds. An entry of \<^verbatim>\<open>recent_causes\<close> is a dictionary with the keys \<^verbatim>\<open>cause\<close> and
  \<^verbatim>\<open>target\<close>, or any other value, kept as its \<^verbatim>\<open>str(c)\<close>. A context that is \<open>None\<close> also
  stands for the empty dictionary: the source reads both the same way.
\<close>

record PendingApproval =
  pa_active :: bool
  pa_action :: Action
  pa_action_type :: string
  pa_target :: "string option"
  pa_risk_score :: rat
  pa_reason :: string
  pa_status :: string
  pa_timestamp :: rat

datatype cause_entry = CauseDict string "string option" | CauseOther string

record DecisionContext =
  ctx_recent_causes :: "cause_entry list"
  ctx_rollback_count :: int
  ctx_pending_approval :: "PendingApproval option"

text \<open>Truth value of an optional string: present and not empty.\<close>

definition truthy :: "string option \<Rightarrow> bool" where
  "truthy t = (case t of None \<Rightarrow> False | Some s \<Rightarrow> s \<noteq> [])"

text \<open>\<^verbatim>\<open>params[k] = v\<close>.\<close>

fun param_set :: "(string \<times> pval) list \<Rightarrow> string \<Rightarrow> pval \<Rightarrow> (string \<times> pval) list" where
  "param_set [] k v = [(k, v)]"
| "param_set ((k', v') # rest) k v =
     (if k' = k then (k', v) # rest else (k', v') # param_set rest k v)"

definition risk_score_of :: "Hypothesis \<Rightarrow> string \<Rightarrow> string option \<Rightarrow> rat \<Rightarrow> rat" where
  "risk_score_of h a_type tgt risk_accumulation =
     (if a_type = NO_OP then 0
      else
        let base = (if a_type = RETRY_POLICY then 0.25
                    else if a_type = REROUTE then 0.55
                    else if a_type = SUPPRESS then 0.6
                    else 0.5);
            risk = base * (1 - confidence h * 0.4) + risk_accumulation
        in max 0 (min 1 risk))"

definition cause_matches :: "string \<Rightarrow> cause_entry \<Rightarrow> bool" where
  "cause_matches target_issuer c =
     (case c of
        CauseDict cs tgt \<Rightarrow>
          tgt = Some target_issuer \<or> (tgt = None \<and> str_contains target_issuer cs)
      | CauseOther s \<Rightarrow> str_contains target_issuer s)"

definition compute_risk_accumulation ::
  "Hypothesis \<Rightarrow> string option \<Rightarrow> DecisionContext option \<Rightarrow> rat" where
  "compute_risk_accumulation h target_issuer context =
     (case (context, target_issuer) of
        (Some ctx, Some ti) \<Rightarrow>
          if ti = [] then 0
          else
            let recent = slice_from (ctx_recent_causes ctx) (- REPEATED_ISSUER_WINDOW);
                count = length (filter (cause_matches ti) recent)
            in if count \<le> 1 then 0
               else min 0.25 (rat_of_nat (count - 1) * RISK_BOOST_PER_REPEAT)
      | _ \<Rightarrow> 0)"

text \<open>
  \<^verbatim>\<open>_should_force_human_handover\<close>. \<^verbatim>\<open>getattr(hypothesis, "uncertainty", 0.0)\<close> returns
  \<^verbatim>\<open>None\<close> for an uncertainty that is present and \<^verbatim>\<open>None\<close>, and the comparison
  \<^verbatim>\<open>uncertainty >= UNCERTAINTY_HANDOVER_THRESHOLD\<close> then raises \<^verbatim>\<open>TypeError\<close>.
\<close>

definition should_force_human_handover ::
  "WindowMetrics \<Rightarrow> Hypothesis \<Rightarrow> DecisionContext option
     \<Rightarrow> py_error + bool \<times> string list" where
  "should_force_human_handover metrics h context =
     (let r1 = (if success_rate metrics < SEVERE_DEGRADATION_SUCCESS_RATE
                then [''Severe degradation (success rate below threshold)''] else []);
          rollback_count = (case context of None \<Rightarrow> 0 | Some ctx \<Rightarrow> ctx_rollback_count ctx);
          r2 = (if rollback_count \<ge> ROLLBACK_COUNT_FORCE_HUMAN
                then r1 @ [''Multiple rollbacks ('' @ str_int rollback_count
                           @ ''); human approval required'']
                else r1);
          r3 = (case average_estimated_cost metrics of
                  None \<Rightarrow> r2
                | Some avg_cost \<Rightarrow>
                    if avg_cost \<ge> HIGH_COST_ESCALATION_THRESHOLD
                    then r2 @ [''Economic risk (cost above escalation threshold)'']
                    else r2);
          by_merchant = (case success_rate_by_merchant metrics of None \<Rightarrow> [] | Some d \<Rightarrow> d);
          degraded_merchants =
            filter (\<lambda>(m, r). r < MERCHANT_DEGRADED_SUCCESS_RATE) by_merchant;
          r4 = (if length degraded_merchants \<ge> MULTI_MERCHANT_DEGRADED_THRESHOLD
                then r3 @ [''Multiple merchants affected (''
                           @ str_nat (length degraded_merchants)
                           @ ''); human approval required to confirm scope and action.'']
                else r3)
      in case uncertainty h of
           None \<Rightarrow> Inl TypeError
         | Some unc \<Rightarrow>
             let r5 = (if unc \<ge> UNCERTAINTY_HANDOVER_THRESHOLD
                       then r4 @ [''Uncertainty high ('' @ fmt_fixed 2 unc
                                  @ ''); root cause unclear. Human approval required before acting.'']
                       else r4)
             in Inr (length r5 > 0, r5))"

text \<open>
  \<^verbatim>\<open>decide\<close>. The last argument is the reading of \<^verbatim>\<open>time.time()\<close> that stamps the trace.
  \<open>propose\<close> is the \<^verbatim>\<open>if/elif\<close> chain over the upper-cased cause, which leaves the default
  no-op and the reasoning as they are when no pattern matches; each branch that builds an
  action is a function of its own, \<open>pick_target\<close> computes \<^verbatim>\<open>target_issuer\<close>, and
  \<open>require_approval\<close> is \<^verbatim>\<open>action.params["requires_human_approval"] = True\<close>; \<open>finalize\<close> is what follows
  the chain (final risk, approval flag, test against the pending escalation). The first
  argument is the Unicode part of \<^verbatim>\<open>str.upper()\<close>. The operations of the function that
  can raise are the call of \<^verbatim>\<open>min\<close> and the comparison of the uncertainty.
\<close>

definition no_op_action :: "string \<Rightarrow> Action" where
  "no_op_action why =
     \<lparr>action_type = NO_OP, target = None, params = [], risk_score = 0, reason_text = why\<rparr>"

definition pick_target :: "WindowMetrics \<Rightarrow> string \<Rightarrow> py_error + string option" where
  "pick_target metrics cu =
     (let parts = split_on (CHR ''_'')
                    (str_replace ''_DEGRADATION'' [] (str_replace ''ISSUER_'' [] cu));
          t0 = (if parts \<noteq> [] then Some (join ''_'' parts) else None)
      in if \<not> truthy t0 \<and> success_rate_by_issuer metrics \<noteq> []
         then map_sum id (\<lambda>kv. Some (fst kv)) (min_by_value (success_rate_by_issuer metrics))
         else Inr t0)"

definition forced_text :: "string list \<Rightarrow> string" where
  "forced_text guardrail_reasons =
     '' Forced human approval: '' @ join ''; '' guardrail_reasons @ ''. ''"

definition require_approval :: "Action \<Rightarrow> Action" where
  "require_approval a =
     a\<lparr>params := param_set (params a) ''requires_human_approval'' (PBool True)\<rparr>"

definition reroute_proposal ::
  "Hypothesis \<Rightarrow> DecisionContext option \<Rightarrow> bool \<Rightarrow> string list \<Rightarrow> string option \<Rightarrow> string
     \<Rightarrow> Action \<times> string" where
  "reroute_proposal h context force_human guardrail_reasons t1 reasoning0 =
     (let risk_accum = compute_risk_accumulation h t1 context;
          a = \<lparr>action_type = REROUTE, target = t1,
               params = [(''weight_reduce'', PNum 0.5)],
               risk_score = risk_score_of h REROUTE t1 risk_accum,
               reason_text = ''Reroute traffic from degraded issuer '' @ str_opt t1\<rparr>;
          a' = (if force_human then require_approval a else a);
          r = (if force_human then reasoning0 @ forced_text guardrail_reasons else reasoning0)
      in (a', r @ ''Issuer-level degradation detected; proposing reroute from ''
                @ str_opt t1 @ ''.''))"

definition retry_storm_proposal ::
  "WindowMetrics \<Rightarrow> Hypothesis \<Rightarrow> DecisionContext option \<Rightarrow> bool \<Rightarrow> string list \<Rightarrow> string
     \<Rightarrow> Action \<times> string" where
  "retry_storm_proposal metrics h context force_human guardrail_reasons reasoning0 =
     (let attempt_amp = attempt_amplification metrics;
          avg_cost = average_estimated_cost metrics;
          risk_accum = compute_risk_accumulation h None context;
          a = \<lparr>action_type = RETRY_POLICY, target = None,
               params = [(''max_retries'', PInt 2), (''backoff_scale'', PNum 1.5),
                         (''intent'', PStr ''reduce_retry_amplification'')],
               risk_score = risk_score_of h RETRY_POLICY None risk_accum,
               reason_text =
                 ''Retry storm detected; reduce retries to limit cost and latency''\<rparr>;
          r = reasoning0 @ ''Retry storm detected; proposing retry policy tightening.''
      in if force_human then (require_approval a, r @ forced_text guardrail_reasons)
         else if (case avg_cost of None \<Rightarrow> False
                  | Some c \<Rightarrow> c \<ge> HIGH_COST_ESCALATION_THRESHOLD)
                 \<or> (case attempt_amp of None \<Rightarrow> False
                     | Some x \<Rightarrow> x \<ge> HIGH_ATTEMPT_AMPLIFICATION)
         then (require_approval a,
               r @ '' Elevated cost or retry amplification detected; human approval required before applying.'')
         else (a, r))"

definition latency_proposal :: "Hypothesis \<Rightarrow> string \<Rightarrow> Action \<times> string" where
  "latency_proposal h reasoning0 =
     (\<lparr>action_type = SUPPRESS, target = Some ''heavy_path'',
       params = [(''duration_sec'', PInt 60)],
       risk_score = risk_score_of h SUPPRESS (Some ''heavy_path'') 0,
       reason_text = ''Latency spike detected; temporarily suppress heavy path''\<rparr>,
      reasoning0 @ ''Latency spike detected; proposing temporary suppression.'')"

definition general_proposal :: "Hypothesis \<Rightarrow> string \<Rightarrow> Action \<times> string" where
  "general_proposal h reasoning0 =
     (\<lparr>action_type = RETRY_POLICY, target = None,
       params = [(''max_retries'', PInt 2)],
       risk_score = risk_score_of h RETRY_POLICY None 0,
       reason_text = ''General degradation; conservative retry reduction''\<rparr>,
      reasoning0 @ ''General degradation detected; proposing conservative retry adjustment.'')"

definition propose ::
  "(string \<Rightarrow> string) \<Rightarrow> WindowMetrics \<Rightarrow> Hypothesis \<Rightarrow> DecisionContext option \<Rightarrow> bool
     \<Rightarrow> string list \<Rightarrow> Action \<Rightarrow> string \<Rightarrow> py_error + Action \<times> string" where
  "propose uni metrics h context force_human guardrail_reasons action0 reasoning0 =
     (let cu = upper uni (cause h)
      in if str_contains ''ISSUER_'' cu \<and> str_contains ''_DEGRADATION'' cu then
           (case pick_target metrics cu of
              Inl err \<Rightarrow> Inl err
            | Inr t1 \<Rightarrow>
                if truthy t1
                then Inr (reroute_proposal h context force_human guardrail_reasons t1
                            reasoning0)
                else Inr (action0, reasoning0))
         else if str_contains ''RETRY_STORM'' cu then
           Inr (retry_storm_proposal metrics h context force_human guardrail_reasons
                  reasoning0)
         else if str_contains ''LATENCY_SPIKE'' cu then Inr (latency_proposal h reasoning0)
         else if str_contains ''GENERAL_DEGRADATION'' cu \<or> str_contains ''DEGRADATION'' cu
         then Inr (general_proposal h reasoning0)
         else Inr (action0, reasoning0))"

definition finalize ::
  "Hypothesis \<Rightarrow> DecisionContext option \<Rightarrow> bool \<Rightarrow> Action \<Rightarrow> string \<Rightarrow> rat
     \<Rightarrow> DecisionTrace" where
  "finalize h context force_human action1 reasoning1 now =
     (let risk_accum = compute_risk_accumulation h (target action1) context;
          action2 = action1\<lparr>risk_score :=
                      risk_score_of h (action_type action1) (target action1) risk_accum\<rparr>;
          action3 = (if force_human \<and> action_type action2 \<noteq> NO_OP
                     then require_approval action2 else action2);
          pending = (case context of None \<Rightarrow> None | Some ctx \<Rightarrow> ctx_pending_approval ctx)
      in case pending of
           Some p \<Rightarrow>
             if action_type action3 \<noteq> NO_OP \<and> action_type action3 = pa_action_type p
                \<and> target action3 = pa_target p
             then \<lparr>hypothesis = Some h,
                   action = no_op_action ''Waiting for human approval'',
                   trace_risk_score = 0,
                   reasoning = reasoning1
                               @ '' [WAITING] Identical action pending human approval.'',
                   trace_timestamp = now\<rparr>
             else \<lparr>hypothesis = Some h, action = action3,
                   trace_risk_score = risk_score action3,
                   reasoning = reasoning1, trace_timestamp = now\<rparr>
         | None \<Rightarrow>
             \<lparr>hypothesis = Some h, action = action3,
              trace_risk_score = risk_score action3,
              reasoning = reasoning1, trace_timestamp = now\<rparr>)"

definition decide ::
  "(string \<Rightarrow> string) \<Rightarrow> WindowMetrics \<Rightarrow> Hypothesis \<Rightarrow> DecisionContext option \<Rightarrow> rat
     \<Rightarrow> py_error + DecisionTrace" where
  "decide uni metrics h context now =
     (if cause h \<noteq> [] \<and> str_contains ''INSUFFICIENT_SIGNAL'' (upper uni (cause h)) then
        Inr \<lparr>hypothesis = Some h,
             action = no_op_action ''Insufficient signal'',
             trace_risk_score = 0,
             reasoning = ''Hypothesis: '' @ cause h @ '' (confidence=''
                         @ fmt_fixed 2 (confidence h) @ ''). '' @ evidence h
                         @ '' No action taken.'',
             trace_timestamp = now\<rparr>
      else
        let action0 = no_op_action ''No intervention needed'';
            reasoning0 = ''Hypothesis: '' @ cause h @ '' (confidence=''
                         @ fmt_fixed 2 (confidence h) @ '', source='' @ source h @ ''). ''
        in if confidence h < MIN_CONFIDENCE_TO_ACT then
             Inr \<lparr>hypothesis = Some h, action = action0, trace_risk_score = 0,
                  reasoning = reasoning0 @ ''Confidence below threshold; no action taken.'',
                  trace_timestamp = now\<rparr>
           else
             (case should_force_human_handover metrics h context of
                Inl err \<Rightarrow> Inl err
              | Inr (force_human, guardrail_reasons) \<Rightarrow>
                  (case propose uni metrics h context force_human guardrail_reasons action0
                          reasoning0 of
                     Inl err \<Rightarrow> Inl err
                   | Inr (action1, reasoning1) \<Rightarrow>
                       Inr (finalize h context force_human action1 reasoning1 now))))"

section \<open>Environment of the executor and the orchestrator\<close>

text \<open>
  What lies outside the Python objects: the pending-approval file of \<^verbatim>\<open>state_writer.py\<close>
  (\<open>None\<close> when the file is missing, unreadable or holds the empty dictionary, which is what
  \<^verbatim>\<open>read_pending_approval\<close> returns as \<open>None\<close>), the calls received by the simulator, the
  decision file (\<^verbatim>\<open>latest\<close> and \<^verbatim>\<open>history\<close>) and the control-state file. The metrics and
  hypothesis files, the console output, the explanatory texts of a decision and the
  learning summary of the control state are written by the source and read by nothing in
  it; they are left out.
\<close>

datatype sim_call = Control string "(string \<times> pval) list" | ClearFailureMode

record ActionWrite =
  aw_action_type :: string
  aw_target :: "string option"
  aw_risk_score :: rat
  aw_reason :: string
  aw_reasoning :: string
  aw_executed :: bool
  aw_message :: string
  aw_ts :: rat
  aw_outcome :: string
  aw_guardrails :: "string list"

record ControlState =
  cs_system_mode :: string
  cs_ts :: rat
  cs_cooldown_until_ts :: "rat option"
  cs_escalation :: "PendingApproval option"

record Env =
  pending_file :: "PendingApproval option"
  sim_calls :: "sim_call list"
  actions_latest :: "ActionWrite option"
  actions_history :: "ActionWrite list"
  control_state :: "ControlState option"

definition MAX_ACTIONS_HISTORY :: nat where "MAX_ACTIONS_HISTORY = 50"

definition SYSTEM_MODE_NORMAL :: string where "SYSTEM_MODE_NORMAL = ''NORMAL''"
definition SYSTEM_MODE_DEGRADED :: string where "SYSTEM_MODE_DEGRADED = ''DEGRADED''"
definition SYSTEM_MODE_HUMAN_APPROVAL_REQUIRED :: string where
  "SYSTEM_MODE_HUMAN_APPROVAL_REQUIRED = ''HUMAN_APPROVAL_REQUIRED''"
definition SYSTEM_MODE_COOLDOWN_ACTIVE :: string where
  "SYSTEM_MODE_COOLDOWN_ACTIVE = ''COOLDOWN_ACTIVE''"

definition OUTCOME_EXECUTED :: string where "OUTCOME_EXECUTED = ''executed''"
definition OUTCOME_BLOCKED :: string where "OUTCOME_BLOCKED = ''blocked''"
definition OUTCOME_SKIPPED_COOLDOWN :: string where
  "OUTCOME_SKIPPED_COOLDOWN = ''skipped_cooldown''"
definition OUTCOME_ROLLED_BACK :: string where "OUTCOME_ROLLED_BACK = ''rolled_back''"

definition read_pending_approval :: "Env \<Rightarrow> PendingApproval option" where
  "read_pending_approval env = pending_file env"

definition write_pending_approval :: "PendingApproval option \<Rightarrow> Env \<Rightarrow> Env" where
  "write_pending_approval approval env = env\<lparr>pending_file := approval\<rparr>"

definition write_action :: "ActionWrite \<Rightarrow> bool \<Rightarrow> Env \<Rightarrow> Env" where
  "write_action latest append_to_history env =
     (let history0 = actions_history env;
          history1 = (if append_to_history then history0 @ [latest] else history0);
          history2 = (if append_to_history \<and> length history1 > MAX_ACTIONS_HISTORY
                      then drop (length history1 - MAX_ACTIONS_HISTORY) history1
                      else history1)
      in env\<lparr>actions_latest := Some latest, actions_history := history2\<rparr>)"

section \<open>Executor (\<^verbatim>\<open>executor.py\<close>)\<close>

definition AUTO_EXECUTE_RISK_THRESHOLD :: rat where "AUTO_EXECUTE_RISK_THRESHOLD = 0.45"
definition ROLLBACK_SUCCESS_RATE_DROP :: rat where "ROLLBACK_SUCCESS_RATE_DROP = 0.08"
definition ROLLBACK_LATENCY_INCREASE_FRACTION :: rat where
  "ROLLBACK_LATENCY_INCREASE_FRACTION = 0.25"

record ActionMeta =
  applied_at :: rat
  meta_status :: string

text \<open>
  \<open>simulator_control\<close> tells whether the callback has been injected; its invocations are
  appended to \<open>sim_calls\<close> of the environment.
\<close>

record Executor =
  active_actions :: "(DecisionTrace \<times> ActionMeta) list"
  baseline_metrics :: "WindowMetrics option"
  rollback_log :: "string list"
  execution_log :: "string list"
  simulator_control :: bool
  pending_escalation :: "PendingApproval option"

text \<open>The constructor followed by \<^verbatim>\<open>_sync_pending_state\<close>.\<close>

definition Executor_init :: "Env \<Rightarrow> Executor" where
  "Executor_init env =
     \<lparr>active_actions = [], baseline_metrics = None, rollback_log = [], execution_log = [],
      simulator_control = False,
      pending_escalation =
        (case read_pending_approval env of
           None \<Rightarrow> None
         | Some p \<Rightarrow> if pa_status p = ''pending'' then Some p else None)\<rparr>"

definition set_simulator_control :: "Executor \<Rightarrow> Executor" where
  "set_simulator_control ex = ex\<lparr>simulator_control := True\<rparr>"

definition set_pending_escalation ::
  "Executor \<Rightarrow> Env \<Rightarrow> Action \<Rightarrow> string \<Rightarrow> rat \<Rightarrow> Executor \<times> Env" where
  "set_pending_escalation ex env a why now =
     (let p = \<lparr>pa_active = True, pa_action = a, pa_action_type = action_type a,
               pa_target = target a, pa_risk_score = risk_score a, pa_reason = why,
               pa_status = ''pending'', pa_timestamp = now\<rparr>
      in (ex\<lparr>pending_escalation := Some p\<rparr>, write_pending_approval (Some p) env))"

text \<open>\<^verbatim>\<open>{"issuer": action.target, **action.params}\<close>.\<close>

definition reroute_params :: "string \<Rightarrow> (string \<times> pval) list \<Rightarrow> (string \<times> pval) list" where
  "reroute_params issuer ps = foldl (\<lambda>d (k, v). param_set d k v) [(''issuer'', PStr issuer)] ps"

definition apply_action :: "Executor \<Rightarrow> Env \<Rightarrow> DecisionTrace \<Rightarrow> bool \<times> Env" where
  "apply_action ex env trace =
     (let a = action trace
      in if simulator_control ex then
           (if action_type a = REROUTE \<and> truthy (target a) then
              (True, env\<lparr>sim_calls := sim_calls env
                        @ [Control ''reroute'' (reroute_params (str_opt (target a)) (params a))]\<rparr>)
            else if action_type a = RETRY_POLICY then
              (True, env\<lparr>sim_calls := sim_calls env @ [Control ''retry_policy'' (params a)]\<rparr>)
            else if action_type a = SUPPRESS then
              (True, env\<lparr>sim_calls := sim_calls env @ [Control ''suppress'' (params a)]\<rparr>)
            else (True, env))
         else (True, env))"

text \<open>
  \<^verbatim>\<open>execute\<close>. The last argument is the reading of \<^verbatim>\<open>time.time()\<close> on the path taken
  (the timestamp of the escalation or \<^verbatim>\<open>applied_at\<close>).
\<close>

definition execute ::
  "Executor \<Rightarrow> Env \<Rightarrow> DecisionTrace \<Rightarrow> WindowMetrics \<Rightarrow> rat
     \<Rightarrow> (bool \<times> string) \<times> Executor \<times> Env" where
  "execute ex env trace current_metrics now =
     (let a = action trace
      in if action_type a = NO_OP then ((True, ''NO_OP''), ex, env)
         else if map_of (params a) ''requires_human_approval'' = Some (PBool True) then
           (let msg = ''[HUMAN-APPROVAL-REQUIRED] Action requires human approval: ''
                      @ action_type a @ '' target='' @ str_opt (target a)
                      @ '' (risk='' @ fmt_fixed 2 (risk_score a) @ '')'';
                ex1 = ex\<lparr>execution_log := execution_log ex @ [msg]\<rparr>;
                (ex2, env2) = set_pending_escalation ex1 env a
                                ''Human approval required (cost/retry guardrail)'' now
            in ((False, msg), ex2, env2))
         else if risk_score a \<ge> AUTO_EXECUTE_RISK_THRESHOLD then
           (let msg = ''[HUMAN-IN-THE-LOOP] High-risk action not auto-executed: ''
                      @ action_type a @ '' target='' @ str_opt (target a)
                      @ '' risk='' @ fmt_fixed 2 (risk_score a);
                ex1 = ex\<lparr>execution_log := execution_log ex @ [msg]\<rparr>;
                (ex2, env2) = set_pending_escalation ex1 env a
                                ''High risk; human approval required'' now
            in ((False, msg), ex2, env2))
         else
           (let ex1 = (if active_actions ex = []
                       then ex\<lparr>baseline_metrics := Some current_metrics\<rparr> else ex);
                (applied, env1) = apply_action ex1 env trace
            in if applied then
                 (let msg = ''Executed: '' @ action_type a @ '' target='' @ str_opt (target a)
                  in ((True, msg),
                      ex1\<lparr>active_actions := active_actions ex1
                             @ [(trace, \<lparr>applied_at = now, meta_status = ''executed''\<rparr>)],
                          execution_log := execution_log ex1 @ [msg]\<rparr>,
                      env1))
               else
                 (let msg = ''Failed to execute: '' @ action_type a
                  in ((False, msg), ex1\<lparr>execution_log := execution_log ex1 @ [msg]\<rparr>, env1))))"

definition rollback_call :: "DecisionTrace \<Rightarrow> sim_call" where
  "rollback_call trace =
     Control ''rollback''
       [(''action_type'', PStr (action_type (action trace))),
        (''target'', case target (action trace) of None \<Rightarrow> PNone | Some t \<Rightarrow> PStr t)]"

definition rollback_action :: "Executor \<Rightarrow> Env \<Rightarrow> DecisionTrace \<Rightarrow> Env" where
  "rollback_action ex env trace =
     (if simulator_control ex then env\<lparr>sim_calls := sim_calls env @ [rollback_call trace]\<rparr>
      else env)"

definition rollback_message :: "DecisionTrace \<Rightarrow> bool \<Rightarrow> bool \<Rightarrow> string" where
  "rollback_message trace success_dropped latency_increased =
     ''Rollback: '' @ action_type (action trace) @ '' (success_drop=''
     @ str_bool success_dropped @ '', latency_inc='' @ str_bool latency_increased @ '')''"

text \<open>
  \<^verbatim>\<open>check_rollback\<close>. The loop over the active actions is \<open>rollback_loop\<close>; the status
  written into each \<^verbatim>\<open>meta\<close> dictionary is dropped with the list that is cleared right
  after the loop.
\<close>

fun rollback_loop ::
  "bool \<Rightarrow> bool \<Rightarrow> (DecisionTrace \<times> ActionMeta) list
     \<Rightarrow> string list \<times> Executor \<times> Env \<Rightarrow> string list \<times> Executor \<times> Env" where
  "rollback_loop sd li [] acc = acc"
| "rollback_loop sd li ((trace, meta) # rest) (rollbacks, ex, env) =
     (let env' = rollback_action ex env trace;
          msg = rollback_message trace sd li
      in rollback_loop sd li rest
           (rollbacks @ [msg], ex\<lparr>rollback_log := rollback_log ex @ [msg]\<rparr>, env'))"

definition check_rollback ::
  "Executor \<Rightarrow> Env \<Rightarrow> WindowMetrics \<Rightarrow> string list \<times> Executor \<times> Env" where
  "check_rollback ex env cur =
     (case baseline_metrics ex of
        None \<Rightarrow> ([], ex, env)
      | Some base \<Rightarrow>
          if active_actions ex = [] then ([], ex, env)
          else
            let success_dropped =
                  (success_rate base - success_rate cur \<ge> ROLLBACK_SUCCESS_RATE_DROP);
                latency_increased =
                  (p95_latency_ms base > 0
                   \<and> (p95_latency_ms cur - p95_latency_ms base) / p95_latency_ms base
                       \<ge> ROLLBACK_LATENCY_INCREASE_FRACTION)
            in if success_dropped \<or> latency_increased then
                 (case rollback_loop success_dropped latency_increased (active_actions ex)
                         ([], ex, env) of
                    (rollbacks, ex1, env1) \<Rightarrow>
                      (rollbacks, ex1\<lparr>active_actions := [], baseline_metrics := None\<rparr>, env1))
               else ([], ex, env))"

definition get_escalation_state :: "Executor \<Rightarrow> PendingApproval option" where
  "get_escalation_state ex = pending_escalation ex"

definition get_rollback_count :: "Executor \<Rightarrow> int" where
  "get_rollback_count ex = int (length (rollback_log ex))"

text \<open>
  \<^verbatim>\<open>check_and_apply_approval\<close>. The two last arguments are the readings of
  \<^verbatim>\<open>time.time()\<close> for the timestamp of the trace and for \<^verbatim>\<open>applied_at\<close>. \<open>resolve\<close> is
  the part of the method after the in-memory slot has been found or reloaded.
\<close>

definition resolve ::
  "Executor \<Rightarrow> Env \<Rightarrow> WindowMetrics \<Rightarrow> rat \<Rightarrow> rat
     \<Rightarrow> (bool \<times> string option \<times> Action option) \<times> Executor \<times> Env" where
  "resolve ex env metrics now_trace now_applied =
     (case read_pending_approval env of
        None \<Rightarrow> ((False, None, None), ex\<lparr>pending_escalation := None\<rparr>, env)
      | Some persisted \<Rightarrow>
          if pa_status persisted = ''approved'' then
            (let a = pa_action persisted;
                 trace = \<lparr>hypothesis = None, action = a, trace_risk_score = risk_score a,
                          reasoning = ''Human approved via dashboard'',
                          trace_timestamp = now_trace\<rparr>;
                 ex1 = ex\<lparr>baseline_metrics := Some metrics\<rparr>;
                 (success, env1) = apply_action ex1 env trace;
                 msg = ''Human APPROVED: '' @ action_type a @ '' target='' @ str_opt (target a);
                 ex2 = ex1\<lparr>execution_log := execution_log ex1 @ [msg]\<rparr>;
                 ex3 = (if success
                        then ex2\<lparr>active_actions := active_actions ex2
                                   @ [(trace, \<lparr>applied_at = now_applied,
                                               meta_status = ''executed''\<rparr>)]\<rparr>
                        else ex2)
             in ((True, Some msg, Some a), ex3\<lparr>pending_escalation := None\<rparr>,
                 write_pending_approval None env1))
          else if pa_status persisted = ''rejected'' then
            (let msg = ''Human REJECTED the proposed action.''
             in ((True, Some msg, None),
                 ex\<lparr>execution_log := execution_log ex @ [msg], pending_escalation := None\<rparr>,
                 write_pending_approval None env))
          else ((False, None, None), ex, env))"

definition check_and_apply_approval ::
  "Executor \<Rightarrow> Env \<Rightarrow> WindowMetrics \<Rightarrow> rat \<Rightarrow> rat
     \<Rightarrow> (bool \<times> string option \<times> Action option) \<times> Executor \<times> Env" where
  "check_and_apply_approval ex env metrics now_trace now_applied =
     (case pending_escalation ex of
        None \<Rightarrow>
          (case read_pending_approval env of
             None \<Rightarrow> ((False, None, None), ex, env)
           | Some disk_state \<Rightarrow>
               if pa_status disk_state = ''pending''
               then resolve (ex\<lparr>pending_escalation := Some disk_state\<rparr>) env metrics
                      now_trace now_applied
               else ((False, None, None), ex, env))
      | Some p \<Rightarrow> resolve ex env metrics now_trace now_applied)"

section \<open>Orchestrator (\<^verbatim>\<open>agent.py\<close>)\<close>

definition DEBOUNCE_SEC :: rat where "DEBOUNCE_SEC = 3"

record Agent =
  executor :: Executor
  learner :: Learner
  last_action_executed :: bool
  pending_outcome :: bool
  cycle_count :: int
  recent_causes :: "cause_entry list"
  max_recent_causes :: int
  last_executed_action_key :: "(string \<times> string option) option"
  last_executed_cycle :: int
  cooldown_until_cycle :: "int option"
  cooldown_cycles :: int
  last_written_action_key :: "(string \<times> string option \<times> string) option"
  last_executed_trace :: "DecisionTrace option"
  last_decision_ts :: rat
  last_decision_action_key :: "(string \<times> string option) option"
  agent_baseline_metrics :: "WindowMetrics option"

text \<open>The constructor, which also injects the simulator callback into the executor.\<close>

definition Agent_init :: "Executor \<Rightarrow> Learner \<Rightarrow> Agent" where
  "Agent_init ex l =
     \<lparr>executor = set_simulator_control ex, learner = l, last_action_executed = False,
      pending_outcome = False, cycle_count = 0, recent_causes = [], max_recent_causes = 10,
      last_executed_action_key = None, last_executed_cycle = - 1,
      cooldown_until_cycle = None, cooldown_cycles = 2, last_written_action_key = None,
      last_executed_trace = None, last_decision_ts = 0, last_decision_action_key = None,
      agent_baseline_metrics = None\<rparr>"

text \<open>
  The readings of \<^verbatim>\<open>time.time()\<close> during one \<^verbatim>\<open>run_cycle\<close>: at its start (\<open>ts\<close>), inside
  \<^verbatim>\<open>decide\<close>, before the debounce test (\<open>now\<close>), for the trace rebuilt on approval, and
  inside the executor.
\<close>

record Clock =
  t_cycle :: rat
  t_decide :: rat
  t_now :: rat
  t_trace :: rat
  t_exec :: rat

definition pval_truthy :: "pval option \<Rightarrow> bool" where
  "pval_truthy v =
     (case v of
        None \<Rightarrow> False
      | Some PNone \<Rightarrow> False
      | Some (PBool b) \<Rightarrow> b
      | Some (PInt i) \<Rightarrow> i \<noteq> 0
      | Some (PNum x) \<Rightarrow> x \<noteq> 0
      | Some (PStr s) \<Rightarrow> s \<noteq> [])"

definition escalation_active :: "PendingApproval option \<Rightarrow> bool" where
  "escalation_active e = (case e of None \<Rightarrow> False | Some p \<Rightarrow> pa_active p)"

definition write_control_state_of ::
  "Agent \<Rightarrow> Env \<Rightarrow> WindowMetrics \<Rightarrow> rat \<Rightarrow> bool \<Rightarrow> Env" where
  "write_control_state_of ag env metrics ts cooldown_active =
     (let escalation = get_escalation_state (executor ag);
          system_mode =
            (if escalation_active escalation then SYSTEM_MODE_HUMAN_APPROVAL_REQUIRED
             else if cooldown_active
                     \<or> (case cooldown_until_cycle ag of
                           None \<Rightarrow> False
                         | Some c \<Rightarrow> cycle_count ag \<le> c)
             then SYSTEM_MODE_COOLDOWN_ACTIVE
             else if success_rate metrics < 0.78 then SYSTEM_MODE_DEGRADED
             else SYSTEM_MODE_NORMAL);
          cooldown_until_ts =
            (case cooldown_until_cycle ag of
               None \<Rightarrow> None
             | Some c \<Rightarrow> Some (ts + rat_of_int (c - cycle_count ag) * 2))
      in env\<lparr>control_state :=
               Some \<lparr>cs_system_mode = system_mode, cs_ts = ts,
                     cs_cooldown_until_ts = cooldown_until_ts,
                     cs_escalation = escalation\<rparr>\<rparr>)"

text \<open>
  \<^verbatim>\<open>run_cycle\<close>, called with the hypothesis (as \<^verbatim>\<open>run\<close> calls it). It is cut in three at the
  two places where the source goes on after an early-return test: \<open>act\<close> is everything
  from the debounce test on (the proposal is not a no-op), \<open>decide_and_act\<close> everything
  from the line that prints the hypothesis on, just before the call of \<^verbatim>\<open>decide\<close>; that line
  formats the uncertainty with \<^verbatim>\<open>:.2f\<close>, which raises \<^verbatim>\<open>TypeError\<close> on \<^verbatim>\<open>None\<close>. The first
  argument is the Unicode part of \<^verbatim>\<open>str.upper()\<close>, passed on to \<^verbatim>\<open>decide\<close>.
\<close>

definition act ::
  "Agent \<Rightarrow> Env \<Rightarrow> WindowMetrics \<Rightarrow> DecisionTrace \<Rightarrow> string list \<Rightarrow> Clock \<Rightarrow> Agent \<times> Env" where
  "act ag env metrics trace guardrails_triggered clock =
     (let a = action trace;
          ts = t_cycle clock;
          action_key = (action_type a, target a);
          now = t_now clock;
          in_cycle_cooldown =
            (last_executed_action_key ag = Some action_key
             \<and> cycle_count ag - last_executed_cycle ag \<le> cooldown_cycles ag);
          in_time_cooldown =
            (last_decision_action_key ag = Some action_key
             \<and> now - last_decision_ts ag < DEBOUNCE_SEC
             \<and> last_action_executed ag)
      in if in_cycle_cooldown \<or> in_time_cooldown then
           (let ag1 = ag\<lparr>cooldown_until_cycle := Some (cycle_count ag + cooldown_cycles ag),
                         learner := cancel_pending (learner ag)\<rparr>;
                outcome_tag = OUTCOME_SKIPPED_COOLDOWN;
                msg = ''[COOLDOWN] Skipped: '' @ action_type a @ '' target=''
                      @ str_opt (target a) @ '' (same action within cooldown)'';
                current_key = (action_type a, target a, outcome_tag);
                append = (Some current_key \<noteq> last_written_action_key ag1);
                env1 = write_action
                         \<lparr>aw_action_type = action_type a, aw_target = target a,
                          aw_risk_score = risk_score a, aw_reason = reason_text a,
                          aw_reasoning = reasoning trace, aw_executed = False,
                          aw_message = msg, aw_ts = ts, aw_outcome = outcome_tag,
                          aw_guardrails = [''Cooldown active'']\<rparr> append env;
                ag2 = (if append then ag1\<lparr>last_written_action_key := Some current_key\<rparr>
                       else ag1)
            in (ag2, write_control_state_of ag2 env1 metrics ts True))
         else
           (case execute (executor ag) env trace metrics (t_exec clock) of
              ((executed, msg), ex1, env1) \<Rightarrow>
                let ag1 = ag\<lparr>executor := ex1\<rparr>;
                    outcome0 = (if executed then ''executed'' else ''blocked'');
                    outcome_tag = (if action_type a = NO_OP then ''executed'' else outcome0);
                    ag2 = (if executed \<and> action_type a \<noteq> NO_OP then
                             ag1\<lparr>last_action_executed := True,
                                 last_executed_action_key := Some action_key,
                                 last_executed_cycle := cycle_count ag1,
                                 last_decision_ts := now,
                                 last_decision_action_key := Some action_key,
                                 pending_outcome := True,
                                 agent_baseline_metrics := Some metrics\<rparr>
                           else if \<not> executed then ag1\<lparr>last_action_executed := False\<rparr>
                           else ag1\<lparr>last_action_executed := True\<rparr>);
                    current_key = (action_type a, target a, outcome_tag);
                    append = (Some current_key \<noteq> last_written_action_key ag2);
                    env2 = write_action
                             \<lparr>aw_action_type = action_type a, aw_target = target a,
                              aw_risk_score = risk_score a, aw_reason = reason_text a,
                              aw_reasoning = reasoning trace, aw_executed = executed,
                              aw_message = msg, aw_ts = ts, aw_outcome = outcome_tag,
                              aw_guardrails = guardrails_triggered\<rparr> append env1;
                    ag3 = (if append then ag2\<lparr>last_written_action_key := Some current_key\<rparr>
                           else ag2);
                    ag4 = (if executed then
                             ag3\<lparr>last_action_executed := True,
                                 last_executed_trace := Some trace,
                                 learner := record_decision_context (learner ag3) metrics a\<rparr>
                           else
                             ag3\<lparr>learner := cancel_pending (learner ag3),
                                 last_executed_trace := None\<rparr>);
                    env3 = (if executed \<and> action_type a = ''reroute'' \<and> truthy (target a)
                            then env2\<lparr>sim_calls := sim_calls env2 @ [ClearFailureMode]\<rparr>
                            else env2)
                in (ag4, write_control_state_of ag4 env3 metrics ts False)))"

definition decide_and_act ::
  "(string \<Rightarrow> string) \<Rightarrow> Agent \<Rightarrow> Env \<Rightarrow> WindowMetrics \<Rightarrow> Hypothesis \<Rightarrow> DecisionContext
     \<Rightarrow> Clock \<Rightarrow> py_error + Agent \<times> Env" where
  "decide_and_act uni ag env metrics h context clock =
     (case (if uncertainty h = None then Inl TypeError
            else decide uni metrics h (Some context) (t_decide clock)) of
        Inl err \<Rightarrow> Inl err
      | Inr trace \<Rightarrow>
          let ts = t_cycle clock;
              appended = recent_causes ag @ [CauseDict (cause h) (target (action trace))];
              ag1 = ag\<lparr>recent_causes :=
                         (if int (length appended) > max_recent_causes ag
                          then slice_from appended (- max_recent_causes ag) else appended)\<rparr>;
              guardrails_triggered =
                (if pval_truthy (map_of (params (action trace)) ''requires_human_approval'')
                 then [''Human approval required''] else [])
          in if action_type (action trace) = NO_OP then
               (let outcome_tag = ''executed'';
                    current_key = (''no_op'', None, outcome_tag);
                    append = (Some current_key \<noteq> last_written_action_key ag1);
                    env1 = write_action
                             \<lparr>aw_action_type = ''no_op'', aw_target = None, aw_risk_score = 0,
                              aw_reason = reason_text (action trace),
                              aw_reasoning = reasoning trace, aw_executed = False,
                              aw_message = ''No intervention needed'', aw_ts = ts,
                              aw_outcome = outcome_tag,
                              aw_guardrails = guardrails_triggered\<rparr> append env;
                    ag2 = (if append then ag1\<lparr>last_written_action_key := Some current_key\<rparr>
                           else ag1)
                in Inr (ag2, write_control_state_of ag2 env1 metrics ts False))
             else Inr (act ag1 env metrics trace guardrails_triggered clock))"

definition run_cycle ::
  "(string \<Rightarrow> string) \<Rightarrow> Agent \<Rightarrow> Env \<Rightarrow> WindowMetrics \<Rightarrow> Hypothesis \<Rightarrow> Clock
     \<Rightarrow> py_error + Agent \<times> Env" where
  "run_cycle uni ag env metrics h clock =
     (let ag1 = ag\<lparr>cycle_count := cycle_count ag + 1, last_action_executed := False\<rparr>;
          ts = t_cycle clock;
          ag2 = (case cooldown_until_cycle ag1 of
                   None \<Rightarrow> ag1
                 | Some c \<Rightarrow> if cycle_count ag1 > c then ag1\<lparr>cooldown_until_cycle := None\<rparr>
                             else ag1);
          pending = get_escalation_state (executor ag2);
          context = \<lparr>ctx_recent_causes = recent_causes ag2,
                     ctx_rollback_count = get_rollback_count (executor ag2),
                     ctx_pending_approval =
                       (if escalation_active pending then pending else None)\<rparr>
      in case check_and_apply_approval (executor ag2) env metrics (t_trace clock)
                (t_exec clock) of
           ((approved, approval_msg, approved_action), ex1, env1) \<Rightarrow>
             let ag3 = ag2\<lparr>executor := ex1\<rparr>
             in if approved then
                  (let ag4 =
                         (case (approval_msg, approved_action) of
                            (Some m, Some a) \<Rightarrow>
                              if str_contains ''APPROVED'' m then
                                ag3\<lparr>last_action_executed := True,
                                    pending_outcome := True,
                                    last_decision_ts := ts,
                                    last_executed_action_key := Some (action_type a, target a),
                                    last_executed_cycle := cycle_count ag3\<rparr>
                              else ag3\<lparr>learner := cancel_pending (learner ag3)\<rparr>
                          | _ \<Rightarrow> ag3\<lparr>learner := cancel_pending (learner ag3)\<rparr>)
                   in Inr (ag4, write_control_state_of ag4 env1 metrics ts False))
                else if escalation_active pending then
                  Inr (ag3, write_control_state_of ag3 env1 metrics ts False)
                else decide_and_act uni ag3 env1 metrics h context clock)"

section \<open>Concrete inputs\<close>

text \<open>Inputs at which the properties below are evaluated.\<close>

definition example_event :: "string \<Rightarrow> rat \<Rightarrow> PaymentOutcome \<Rightarrow> rat \<Rightarrow> PaymentEvent" where
  "example_event issuer lat oc ts =
     \<lparr>event_id = ''e'', issuer_bank = issuer, payment_method = ''card'',
      merchant_id = Some ''m1'', latency_ms = lat, retries = 0, outcome = oc,
      error_code = NONE, timestamp = ts, total_attempts = Some 1,
      estimated_cost = Some 0.01\<rparr>"

definition example_observer :: "PaymentEvent list \<Rightarrow> Observer" where
  "example_observer evs =
     \<lparr>window_size = 200, window_advance_events = 50, buffer = evs, window_counter = 0\<rparr>"

definition example_metrics :: "rat \<Rightarrow> rat \<Rightarrow> int \<Rightarrow> WindowMetrics" where
  "example_metrics sr p95 n =
     \<lparr>window_id = ''partial-200'', start_ts = 0, end_ts = 10, success_rate = sr,
      p95_latency_ms = p95, retry_amplification = 0,
      error_distribution = [(''none'', 1)],
      success_rate_by_issuer = [(''HDFC'', 0.4), (''ICICI'', 0.95), (''SBI'', 0.95)],
      sample_count = n,
      success_rate_by_merchant = Some [(''m1'', sr)],
      attempt_amplification_by_merchant = Some [(''m1'', 1)],
      avg_cost_by_merchant = Some [(''m1'', 0.01)],
      attempt_amplification = Some 1,
      average_estimated_cost = Some 0.01\<rparr>"

definition example_hypothesis :: "string \<Rightarrow> rat \<Rightarrow> rat \<Rightarrow> Hypothesis" where
  "example_hypothesis c conf u =
     \<lparr>cause = c, confidence = conf, evidence = ''evidence'', source = ''heuristic'',
      uncertainty = Some u\<rparr>"

definition example_action :: "string \<Rightarrow> string option \<Rightarrow> rat \<Rightarrow> Action" where
  "example_action ty tgt risk =
     \<lparr>action_type = ty, target = tgt, params = [(''weight_reduce'', PNum 0.5)],
      risk_score = risk, reason_text = ''example''\<rparr>"

definition example_trace :: "Action \<Rightarrow> DecisionTrace" where
  "example_trace a =
     \<lparr>hypothesis = None, action = a, trace_risk_score = risk_score a,
      reasoning = ''example'', trace_timestamp = 0\<rparr>"

definition example_pending :: "Action \<Rightarrow> string \<Rightarrow> PendingApproval" where
  "example_pending a st =
     \<lparr>pa_active = True, pa_action = a, pa_action_type = action_type a,
      pa_target = target a, pa_risk_score = risk_score a,
      pa_reason = ''High risk; human approval required'', pa_status = st,
      pa_timestamp = 1\<rparr>"

definition example_env :: "PendingApproval option \<Rightarrow> Env" where
  "example_env f =
     \<lparr>pending_file = f, sim_calls = [], actions_latest = None, actions_history = [],
      control_state = None\<rparr>"

definition example_executor ::
  "(DecisionTrace \<times> ActionMeta) list \<Rightarrow> WindowMetrics option \<Rightarrow> PendingApproval option
     \<Rightarrow> Executor" where
  "example_executor acts base pend =
     \<lparr>active_actions = acts, baseline_metrics = base, rollback_log = [],
      execution_log = [], simulator_control = True, pending_escalation = pend\<rparr>"

definition example_clock :: "rat \<Rightarrow> Clock" where
  "example_clock t = \<lparr>t_cycle = t, t_decide = t, t_now = t, t_trace = t, t_exec = t\<rparr>"

text \<open>
  A pending escalation for a reroute, a high-risk proposal of another kind, and an
  orchestrator whose executor holds that escalation.
\<close>

definition pending_reroute :: PendingApproval where
  "pending_reroute = example_pending (example_action ''reroute'' (Some ''HDFC'') 0.5) ''pending''"


definition waiting_executor :: Executor where
  "waiting_executor = example_executor [] None (Some pending_reroute)"

definition waiting_env :: Env where
  "waiting_env = example_env (Some pending_reroute)"


text \<open>An observer that has ingested one event.\<close>

definition one_event_observer :: Observer where
  "one_event_observer = example_observer [example_event ''HDFC'' 120 SUCCESS 1]"

text \<open>
  Four cycles of a fresh orchestrator, \<open>dt\<close> seconds apart from second 100 on: the issuer
  hypothesis, twice a hypothesis of insufficient signal, and the issuer hypothesis again.
\<close>

definition issuer_hypothesis :: Hypothesis where
  "issuer_hypothesis = example_hypothesis ''Issuer_HDFC_Degradation'' 0.85 0"

definition quiet_hypothesis :: Hypothesis where
  "quiet_hypothesis = example_hypothesis ''INSUFFICIENT_SIGNAL'' 0 1"

definition fresh_agent :: Agent where
  "fresh_agent = Agent_init (Executor_init (example_env None)) Learner_init"

definition then_cycle ::
  "(string \<Rightarrow> string) \<Rightarrow> py_error + Agent \<times> Env \<Rightarrow> Hypothesis \<Rightarrow> rat
     \<Rightarrow> py_error + Agent \<times> Env" where
  "then_cycle uni st h t =
     (case st of
        Inl err \<Rightarrow> Inl err
      | Inr (ag, env) \<Rightarrow>
          run_cycle uni ag env (example_metrics 0.8 100 200) h (example_clock t))"

definition debounce_scenario :: "(string \<Rightarrow> string) \<Rightarrow> rat \<Rightarrow> py_error + Agent \<times> Env" where
  "debounce_scenario uni dt =
     then_cycle uni
       (then_cycle uni
          (then_cycle uni
             (then_cycle uni (Inr (fresh_agent, example_env None)) issuer_hypothesis 100)
             quiet_hypothesis (100 + dt))
          quiet_hypothesis (100 + 2 * dt))
       issuer_hypothesis (100 + 3 * dt)"


definition cost_metrics :: "rat \<Rightarrow> rat \<Rightarrow> rat \<Rightarrow> WindowMetrics" where
  "cost_metrics sr cost retry_amp =
     (example_metrics sr 100 200)
       \<lparr>retry_amplification := retry_amp, average_estimated_cost := Some cost\<rparr>"

text \<open>An executor with one reroute applied, and an approved escalation of a reroute.\<close>

definition reroute_trace :: DecisionTrace where
  "reroute_trace = example_trace (example_action ''reroute'' (Some ''HDFC'') 0.3)"

definition active_executor :: Executor where
  "active_executor =
     example_executor [(reroute_trace, \<lparr>applied_at = 1, meta_status = ''executed''\<rparr>)]
       (Some (example_metrics 0.9 100 200)) None"

section \<open>Properties of the Learner\<close>

lemma stats_of_update: "stats_of (stats_update stats a s) a = s"
  by (induction stats a s rule: stats_update.induct) (auto simp: stats_of_def)

text \<open>
  Claim C10. \<^verbatim>\<open>record_outcome\<close> called while no decision context is pending (the
  context or the pending action is missing: nothing was recorded yet, the last recorded
  action was a no-op on an idle learner, or \<^verbatim>\<open>cancel_pending\<close> ran) returns the learner
  unchanged: no outcome record is appended and no counter moves. The three ways of being
  idle are part of the statement.
\<close>

theorem record_outcome_idle_unchanged:
  "(context_before_action l = None \<or> action_pending l = None
      \<longrightarrow> record_outcome l m rb = l)
   \<and> record_outcome Learner_init m rb = Learner_init
   \<and> record_outcome (cancel_pending l) m rb = cancel_pending l
   \<and> (action_type a = ''no_op''
      \<longrightarrow> record_outcome (record_decision_context Learner_init m0 a) m rb = Learner_init)"
  by (auto simp: record_outcome_def cancel_pending_def Learner_init_def
      record_decision_context_def split: option.splits)

theorem record_outcome_idle_unchanged_witness:
  "record_outcome
       (Learner_init\<lparr>action_pending := Some (example_action ''reroute'' (Some ''HDFC'') 0.3)\<rparr>)
       (example_metrics 0.8 100 200) True
     = Learner_init\<lparr>action_pending := Some (example_action ''reroute'' (Some ''HDFC'') 0.3)\<rparr>
   \<and> record_outcome
         (record_decision_context Learner_init (example_metrics 0.8 100 200)
            (no_op_action ''No intervention needed''))
         (example_metrics 0.9 100 200) False
     = Learner_init"
  using record_outcome_idle_unchanged
    [of "Learner_init\<lparr>action_pending := Some (example_action ''reroute'' (Some ''HDFC'') 0.3)\<rparr>"
        "example_metrics 0.8 100 200" True "no_op_action ''No intervention needed''"
        "example_metrics 0.8 100 200"]
    record_outcome_idle_unchanged
    [of Learner_init "example_metrics 0.9 100 200" False "no_op_action ''No intervention needed''"
        "example_metrics 0.8 100 200"]
  by (simp add: Learner_init_def no_op_action_def NO_OP_def)

text \<open>\<^verbatim>\<open>record_outcome\<close> with a pending context, written out once.\<close>

lemma record_outcome_pending:
  assumes "context_before_action l = Some before" "action_pending l = Some a"
  shows "record_outcome l m rb =
     (let after = metrics_snapshot m;
          res = evaluate_helped before after rb;
          record = \<lparr>context_snapshot = before, oc_action = a, outcome_metrics = after,
                    helped = fst res, rollback_applied = rb\<rparr>;
          appended = outcomes l @ [record];
          old = stats_of (action_stats l) (action_type a);
          new = (if snd res > 0 then old\<lparr>st_helped := st_helped old + 1\<rparr>
                 else if snd res < 0 then old\<lparr>st_hurt := st_hurt old + 1\<rparr>
                 else old\<lparr>st_neutral := st_neutral old + 1\<rparr>)
      in \<lparr>outcomes = (if length appended > MAX_OUTCOME_RECORDS
                       then drop (length appended - MAX_OUTCOME_RECORDS) appended
                       else appended),
          context_before_action = None, action_pending = None,
          action_stats = stats_update (action_stats l) (action_type a) new\<rparr>)"
  using assms by (simp add: record_outcome_def Let_def split: prod.splits)

text \<open>
  Claim C6, as amended. With a decision context pending, \<^verbatim>\<open>record_outcome\<close> appends one
  outcome record (for the pending action, with the stored context) and moves exactly one
  of the three counters of that action type by one, in this order of tests: rollback
  applied gives hurt; otherwise the harm test gives hurt, and the harm test reads the
  metrics after the action only: the average cost after the action is at least
  \<^verbatim>\<open>HARMFUL_COST_INCREASE\<close> (0.04), or the attempt amplification after the action is at
  least \<^verbatim>\<open>HARMFUL_ATTEMPT_AMPLIFICATION\<close> (1.6); otherwise the help test gives helped,
  which is that the success rate rose by at least \<^verbatim>\<open>HELPED_SUCCESS_IMPROVEMENT\<close> (0.03)
  or a positive p95 latency fell by at least the fraction \<^verbatim>\<open>HELPED_LATENCY_REDUCTION\<close>
  (0.15); otherwise neutral. The \<^verbatim>\<open>helped\<close> flag of the record is set in the helped case
  only, so helped and hurt exclude each other and a rollback is always hurt with
  \<^verbatim>\<open>helped = False\<close>.
\<close>

theorem record_outcome_classification:
  assumes "context_before_action l = Some before" and "action_pending l = Some a"
  shows
    "(let after = metrics_snapshot m;
          l' = record_outcome l m rb;
          old = stats_of (action_stats l) (action_type a);
          new = stats_of (action_stats l') (action_type a);
          rec = last (outcomes l');
          harm = ((\<exists>c. snap_average_estimated_cost after = Some c \<and> c \<ge> HARMFUL_COST_INCREASE)
                  \<or> (\<exists>x. snap_attempt_amplification after = Some x
                          \<and> x \<ge> HARMFUL_ATTEMPT_AMPLIFICATION));
          help = (snap_success_rate after - snap_success_rate before
                    \<ge> HELPED_SUCCESS_IMPROVEMENT
                  \<or> (snap_p95_latency_ms before > 0
                      \<and> (snap_p95_latency_ms before - snap_p95_latency_ms after)
                          / snap_p95_latency_ms before \<ge> HELPED_LATENCY_REDUCTION));
          hurt_c = (st_hurt new = st_hurt old + 1 \<and> st_helped new = st_helped old
                    \<and> st_neutral new = st_neutral old \<and> \<not> helped rec);
          helped_c = (st_helped new = st_helped old + 1 \<and> st_hurt new = st_hurt old
                      \<and> st_neutral new = st_neutral old \<and> helped rec);
          neutral_c = (st_neutral new = st_neutral old + 1 \<and> st_hurt new = st_hurt old
                       \<and> st_helped new = st_helped old \<and> \<not> helped rec)
      in outcomes l' \<noteq> [] \<and> oc_action rec = a \<and> context_snapshot rec = before
         \<and> outcome_metrics rec = after \<and> rollback_applied rec = rb
         \<and> context_before_action l' = None \<and> action_pending l' = None
         \<and> (if rb then hurt_c
            else if harm then hurt_c
            else if help then helped_c
            else neutral_c))"
proof -
  have last: "last (outcomes (record_outcome l m rb)) =
     \<lparr>context_snapshot = before, oc_action = a, outcome_metrics = metrics_snapshot m,
      helped = fst (evaluate_helped before (metrics_snapshot m) rb), rollback_applied = rb\<rparr>"
    and ne: "outcomes (record_outcome l m rb) \<noteq> []"
    by (simp_all add: record_outcome_pending[OF assms] Let_def MAX_OUTCOME_RECORDS_def)
  have stats: "stats_of (action_stats (record_outcome l m rb)) (action_type a) =
     (let old = stats_of (action_stats l) (action_type a);
          sc = snd (evaluate_helped before (metrics_snapshot m) rb)
      in if sc > 0 then old\<lparr>st_helped := st_helped old + 1\<rparr>
         else if sc < 0 then old\<lparr>st_hurt := st_hurt old + 1\<rparr>
         else old\<lparr>st_neutral := st_neutral old + 1\<rparr>)"
    by (simp add: record_outcome_pending[OF assms] Let_def stats_of_update)
  have clear: "context_before_action (record_outcome l m rb) = None"
    "action_pending (record_outcome l m rb) = None"
    by (simp_all add: record_outcome_pending[OF assms] Let_def)
  show ?thesis
    unfolding Let_def last stats[unfolded Let_def]
    using ne clear
    by (auto simp: evaluate_helped_def Let_def split: option.splits)
qed

theorem record_outcome_classification_witness:
  "(let l = record_decision_context Learner_init (example_metrics 0.8 100 200)
              (example_action ''reroute'' (Some ''HDFC'') 0.3);
        helped_run = record_outcome l (example_metrics 0.9 100 200) False;
        rolled_run = record_outcome l (example_metrics 0.9 100 200) True
    in context_before_action l = Some (metrics_snapshot (example_metrics 0.8 100 200))
       \<and> action_pending l = Some (example_action ''reroute'' (Some ''HDFC'') 0.3)
       \<and> st_helped (stats_of (action_stats helped_run) ''reroute'') = 1
       \<and> st_hurt (stats_of (action_stats helped_run) ''reroute'') = 0
       \<and> helped (last (outcomes helped_run))
       \<and> st_hurt (stats_of (action_stats rolled_run) ''reroute'') = 1
       \<and> st_helped (stats_of (action_stats rolled_run) ''reroute'') = 0
       \<and> \<not> helped (last (outcomes rolled_run)))"
proof -
  define l where "l = record_decision_context Learner_init (example_metrics 0.8 100 200)
              (example_action ''reroute'' (Some ''HDFC'') 0.3)"
  have c: "context_before_action l = Some (metrics_snapshot (example_metrics 0.8 100 200))"
    and p: "action_pending l = Some (example_action ''reroute'' (Some ''HDFC'') 0.3)"
    by (simp_all add: l_def record_decision_context_def example_action_def)
  have s0: "stats_of (action_stats l) ''reroute'' = \<lparr>st_helped = 0, st_hurt = 0, st_neutral = 0\<rparr>"
    by (simp add: l_def record_decision_context_def example_action_def Learner_init_def
        stats_of_def)
  show ?thesis
    using c p s0
      record_outcome_classification [OF c p, of "example_metrics 0.9 100 200" False]
      record_outcome_classification [OF c p, of "example_metrics 0.9 100 200" True]
    unfolding l_def [symmetric]
    by (simp add: Let_def metrics_snapshot_def example_metrics_def example_action_def
        HARMFUL_COST_INCREASE_def HARMFUL_ATTEMPT_AMPLIFICATION_def
        HELPED_SUCCESS_IMPROVEMENT_def HELPED_LATENCY_REDUCTION_def)
qed

text \<open>
  Claim C6 as stated makes the harm test an increase of the cost or of the retry
  amplification. Two inputs, both without rollback and with the success rate rising from
  0.8 to 0.9. In the first the average cost falls from 0.10 to 0.05 and the retry
  amplification stays 0: nothing increased, yet the record is hurt and not helped. In the
  second the retry amplification rises from 0 to 5 at an average cost of 0.01: the record is
  helped.
\<close>

theorem harm_test_is_not_an_increase_counterexample:
  "average_estimated_cost (cost_metrics 0.8 0.10 0) = Some 0.10
   \<and> average_estimated_cost (cost_metrics 0.9 0.05 0) = Some 0.05
   \<and> retry_amplification (cost_metrics 0.9 0.05 0) = retry_amplification (cost_metrics 0.8 0.10 0)
   \<and> attempt_amplification (cost_metrics 0.9 0.05 0)
       = attempt_amplification (cost_metrics 0.8 0.10 0)
   \<and> evaluate_helped (metrics_snapshot (cost_metrics 0.8 0.10 0))
         (metrics_snapshot (cost_metrics 0.9 0.05 0)) False = (False, - 1)
   \<and> st_hurt (stats_of (action_stats (record_outcome
         (record_decision_context Learner_init (cost_metrics 0.8 0.10 0)
            (example_action ''reroute'' (Some ''HDFC'') 0.3))
         (cost_metrics 0.9 0.05 0) False)) ''reroute'') = 1
   \<and> retry_amplification (cost_metrics 0.8 0.01 0) < retry_amplification (cost_metrics 0.9 0.01 5)
   \<and> evaluate_helped (metrics_snapshot (cost_metrics 0.8 0.01 0))
         (metrics_snapshot (cost_metrics 0.9 0.01 5)) False = (True, 1)
   \<and> st_helped (stats_of (action_stats (record_outcome
         (record_decision_context Learner_init (cost_metrics 0.8 0.01 0)
            (example_action ''reroute'' (Some ''HDFC'') 0.3))
         (cost_metrics 0.9 0.01 5) False)) ''reroute'') = 1"
  by (simp add: cost_metrics_def example_metrics_def metrics_snapshot_def evaluate_helped_def
      record_outcome_def record_decision_context_def Learner_init_def example_action_def
      stats_of_def Let_def HARMFUL_COST_INCREASE_def HARMFUL_ATTEMPT_AMPLIFICATION_def
      HELPED_SUCCESS_IMPROVEMENT_def HELPED_LATENCY_REDUCTION_def MAX_OUTCOME_RECORDS_def)

section \<open>Properties of the Executor\<close>

text \<open>The loop of \<^verbatim>\<open>check_rollback\<close> in closed form.\<close>

lemma rollback_loop_result:
  "rollback_loop sd li acts (rbs, ex, env) =
     (rbs @ map (\<lambda>(t, m). rollback_message t sd li) acts,
      ex\<lparr>rollback_log := rollback_log ex @ map (\<lambda>(t, m). rollback_message t sd li) acts\<rparr>,
      env\<lparr>sim_calls := sim_calls env
             @ (if simulator_control ex then map (\<lambda>(t, m). rollback_call t) acts else [])\<rparr>)"
proof (induction acts arbitrary: rbs ex env)
  case Nil
  then show ?case by simp
next
  case (Cons x acts)
  obtain t m where x: "x = (t, m)" by (cases x)
  show ?case
    unfolding x by (simp add: Cons.IH Let_def rollback_action_def)
qed

text \<open>
  Claim C2. For an executor with at least one active action and a stored baseline,
  \<^verbatim>\<open>check_rollback\<close> either detects a regression (the success rate fell by at least 0.08
  against the baseline, or the p95 latency exceeds a positive baseline p95 by a fraction of
  at least 0.25) and then reverts every active action, which is to send the attached
  simulator, for each active action in order, the command \<^verbatim>\<open>rollback\<close> with the type and
  the target of that action; it returns and logs one rollback message per active action,
  naming the action type and the two tests, and clears the active-action list and the
  baseline together. Or it detects no regression and returns the empty list with executor
  and environment as they were.
\<close>

theorem check_rollback_regression:
  assumes "active_actions ex \<noteq> []" and "baseline_metrics ex = Some base"
  shows
    "(let success_dropped = (success_rate base - success_rate cur \<ge> 0.08);
          latency_increased =
            (p95_latency_ms base > 0
             \<and> (p95_latency_ms cur - p95_latency_ms base) / p95_latency_ms base \<ge> 0.25);
          msgs = map (\<lambda>(t, m). ''Rollback: '' @ action_type (action t) @ '' (success_drop=''
                                 @ (if success_dropped then ''True'' else ''False'')
                                 @ '', latency_inc=''
                                 @ (if latency_increased then ''True'' else ''False'') @ '')'')
                   (active_actions ex);
          reverts = map (\<lambda>(t, m). Control ''rollback''
                                     [(''action_type'', PStr (action_type (action t))),
                                      (''target'', case target (action t) of
                                                     None \<Rightarrow> PNone | Some tg \<Rightarrow> PStr tg)])
                      (active_actions ex)
      in if success_dropped \<or> latency_increased
         then check_rollback ex env cur =
                (msgs,
                 ex\<lparr>active_actions := [], baseline_metrics := None,
                    rollback_log := rollback_log ex @ msgs\<rparr>,
                 env\<lparr>sim_calls := sim_calls env
                        @ (if simulator_control ex then reverts else [])\<rparr>)
              \<and> length msgs = length (active_actions ex)
              \<and> length reverts = length (active_actions ex)
         else check_rollback ex env cur = ([], ex, env))"
proof -
  define sd where "sd = (success_rate base - success_rate cur \<ge> 0.08)"
  define li where "li = (p95_latency_ms base > 0
             \<and> (p95_latency_ms cur - p95_latency_ms base) / p95_latency_ms base \<ge> 0.25)"
  have unfold: "check_rollback ex env cur =
      (if sd \<or> li
       then (case rollback_loop sd li (active_actions ex) ([], ex, env) of
               (rollbacks, ex1, env1) \<Rightarrow>
                 (rollbacks, ex1\<lparr>active_actions := [], baseline_metrics := None\<rparr>, env1))
       else ([], ex, env))"
    unfolding check_rollback_def sd_def li_def ROLLBACK_SUCCESS_RATE_DROP_def
      ROLLBACK_LATENCY_INCREASE_FRACTION_def Let_def
    using assms by simp
  have msg: "rollback_message t sd li =
      ''Rollback: '' @ action_type (action t) @ '' (success_drop=''
        @ (if sd then ''True'' else ''False'') @ '', latency_inc=''
        @ (if li then ''True'' else ''False'') @ '')''" for t
    by (simp add: rollback_message_def str_bool_def)
  have call: "rollback_call t =
      Control ''rollback''
        [(''action_type'', PStr (action_type (action t))),
         (''target'', case target (action t) of None \<Rightarrow> PNone | Some tg \<Rightarrow> PStr tg)]" for t
    by (simp add: rollback_call_def)
  show ?thesis
    unfolding Let_def sd_def [symmetric] li_def [symmetric] unfold
    by (simp add: rollback_loop_result msg call)
qed

theorem check_rollback_regression_witness:
  "active_actions active_executor \<noteq> []
   \<and> baseline_metrics active_executor = Some (example_metrics 0.9 100 200)
   \<and> check_rollback active_executor (example_env None) (example_metrics 0.8 100 200) =
       ([''Rollback: reroute (success_drop=True, latency_inc=False)''],
        active_executor
          \<lparr>active_actions := [], baseline_metrics := None,
           rollback_log := [''Rollback: reroute (success_drop=True, latency_inc=False)'']\<rparr>,
        (example_env None)
          \<lparr>sim_calls := [Control ''rollback'' [(''action_type'', PStr ''reroute''),
                                               (''target'', PStr ''HDFC'')]]\<rparr>)
   \<and> check_rollback active_executor (example_env None) (example_metrics 0.9 100 200)
       = ([], active_executor, example_env None)"
proof -
  have a: "active_actions active_executor \<noteq> []"
    and b: "baseline_metrics active_executor = Some (example_metrics 0.9 100 200)"
    by (simp_all add: active_executor_def example_executor_def)
  have more: "rollback_log active_executor = []" "simulator_control active_executor"
    "active_actions active_executor
       = [(reroute_trace, \<lparr>applied_at = 1, meta_status = ''executed''\<rparr>)]"
    "action_type (action reroute_trace) = ''reroute''"
    "target (action reroute_trace) = Some ''HDFC''"
    by (simp_all add: active_executor_def example_executor_def reroute_trace_def
        example_trace_def example_action_def)
  have s: "sim_calls (example_env None) = []"
    by (simp add: example_env_def)
  show ?thesis
    using a b
      check_rollback_regression [OF a b, of "example_metrics 0.8 100 200" "example_env None"]
      check_rollback_regression [OF a b, of "example_metrics 0.9 100 200" "example_env None"]
    by (simp add: Let_def more s example_metrics_def)
qed

text \<open>\<^verbatim>\<open>_apply_action\<close> always reports success; what it sends to the simulator.\<close>

lemma apply_action_baseline:
  "apply_action (ex\<lparr>baseline_metrics := b\<rparr>) env trace = apply_action ex env trace"
  by (simp add: apply_action_def)

lemma apply_action_True: "fst (apply_action ex env trace) = True"
  by (simp add: apply_action_def Let_def)

lemma apply_action_env:
  "snd (apply_action ex env trace) =
     env\<lparr>sim_calls := sim_calls env @
       (if simulator_control ex then
          (if action_type (action trace) = ''reroute'' \<and> truthy (target (action trace))
           then [Control ''reroute''
                   (reroute_params (str_opt (target (action trace))) (params (action trace)))]
           else if action_type (action trace) = ''retry_policy''
           then [Control ''retry_policy'' (params (action trace))]
           else if action_type (action trace) = ''suppress''
           then [Control ''suppress'' (params (action trace))]
           else [])
        else [])\<rparr>"
  by (simp add: apply_action_def Let_def REROUTE_def RETRY_POLICY_def SUPPRESS_def)

text \<open>
  Claim C8. With an escalation pending in memory and a record in the pending-approval
  file: on status \<^verbatim>\<open>approved\<close> the persisted action is applied, which is to send the
  attached simulator the command of its type (\<^verbatim>\<open>reroute\<close> with the target as issuer added
  to the parameters, \<^verbatim>\<open>retry_policy\<close> or \<^verbatim>\<open>suppress\<close> with the parameters) and to append it
  to the active actions; the current metrics become the baseline, the slot and the file
  are cleared and the action is returned. On \<^verbatim>\<open>rejected\<close> slot and file are cleared,
  nothing is sent to the simulator, active actions and baseline stay, and no action is
  returned. On \<^verbatim>\<open>pending\<close> the call returns \<^verbatim>\<open>(False, None, None)\<close> and changes nothing.
\<close>

theorem check_and_apply_approval_round_trip:
  assumes "pending_escalation ex = Some p" and "read_pending_approval env = Some d"
  shows
    "(pa_status d = ''approved'' \<longrightarrow>
        (let a = pa_action d;
             trace = \<lparr>hypothesis = None, action = a, trace_risk_score = risk_score a,
                      reasoning = ''Human approved via dashboard'', trace_timestamp = t1\<rparr>;
             sent = (if simulator_control ex then
                       (if action_type a = ''reroute'' \<and> target a \<noteq> None \<and> target a \<noteq> Some []
                        then [Control ''reroute''
                                (foldl (\<lambda>dict (k, v). param_set dict k v)
                                   [(''issuer'', PStr (str_opt (target a)))] (params a))]
                        else if action_type a = ''retry_policy''
                        then [Control ''retry_policy'' (params a)]
                        else if action_type a = ''suppress''
                        then [Control ''suppress'' (params a)]
                        else [])
                     else [])
         in case check_and_apply_approval ex env m t1 t2 of
              ((processed, msg, approved), ex', env') \<Rightarrow>
                processed \<and> approved = Some a
                \<and> msg = Some (''Human APPROVED: '' @ action_type a @ '' target=''
                              @ str_opt (target a))
                \<and> baseline_metrics ex' = Some m
                \<and> active_actions ex' =
                    active_actions ex @ [(trace, \<lparr>applied_at = t2, meta_status = ''executed''\<rparr>)]
                \<and> sim_calls env' = sim_calls env @ sent
                \<and> pending_escalation ex' = None \<and> read_pending_approval env' = None))
     \<and> (pa_status d = ''rejected'' \<longrightarrow>
          (case check_and_apply_approval ex env m t1 t2 of
             ((processed, msg, approved), ex', env') \<Rightarrow>
               processed \<and> approved = None
               \<and> msg = Some ''Human REJECTED the proposed action.''
               \<and> active_actions ex' = active_actions ex
               \<and> baseline_metrics ex' = baseline_metrics ex
               \<and> sim_calls env' = sim_calls env
               \<and> pending_escalation ex' = None \<and> read_pending_approval env' = None))
     \<and> (pa_status d = ''pending'' \<longrightarrow>
          check_and_apply_approval ex env m t1 t2 = ((False, None, None), ex, env))"
proof -
  have r: "check_and_apply_approval ex env m t1 t2 = resolve ex env m t1 t2"
    using assms by (simp add: check_and_apply_approval_def)
  have t: "truthy x = (x \<noteq> None \<and> x \<noteq> Some [])" for x
    by (cases x) (simp_all add: truthy_def)
  show ?thesis
    unfolding r using assms
    by (auto simp: resolve_def Let_def split_beta apply_action_baseline apply_action_True
        apply_action_env t reroute_params_def read_pending_approval_def
        write_pending_approval_def)
qed

theorem check_and_apply_approval_round_trip_witness:
  "pending_escalation waiting_executor = Some pending_reroute
   \<and> read_pending_approval (example_env (Some (pending_reroute\<lparr>pa_status := ''approved''\<rparr>)))
       = Some (pending_reroute\<lparr>pa_status := ''approved''\<rparr>)
   \<and> (case check_and_apply_approval waiting_executor
             (example_env (Some (pending_reroute\<lparr>pa_status := ''approved''\<rparr>)))
             (example_metrics 0.8 100 200) 7 8 of
         (r, ex', env') \<Rightarrow>
           r = (True, Some ''Human APPROVED: reroute target=HDFC'',
                Some (example_action ''reroute'' (Some ''HDFC'') 0.5))
           \<and> sim_calls env' = [Control ''reroute'' [(''issuer'', PStr ''HDFC''),
                                                     (''weight_reduce'', PNum 0.5)]]
           \<and> map (\<lambda>(t, meta). (action t, trace_timestamp t, applied_at meta))
                (active_actions ex')
               = [(example_action ''reroute'' (Some ''HDFC'') 0.5, 7, 8)]
           \<and> baseline_metrics ex' = Some (example_metrics 0.8 100 200)
           \<and> pending_escalation ex' = None \<and> pending_file env' = None)
   \<and> (case check_and_apply_approval waiting_executor
             (example_env (Some (pending_reroute\<lparr>pa_status := ''rejected''\<rparr>)))
             (example_metrics 0.8 100 200) 7 8 of
         (r, ex', env') \<Rightarrow>
           r = (True, Some ''Human REJECTED the proposed action.'', None)
           \<and> sim_calls env' = [] \<and> active_actions ex' = []
           \<and> baseline_metrics ex' = None
           \<and> pending_escalation ex' = None \<and> pending_file env' = None)
   \<and> check_and_apply_approval waiting_executor waiting_env (example_metrics 0.8 100 200) 7 8
       = ((False, None, None), waiting_executor, waiting_env)"
proof -
  have p: "pending_escalation waiting_executor = Some pending_reroute"
    by (simp add: waiting_executor_def example_executor_def)
  have d: "read_pending_approval (example_env (Some x)) = Some x" for x
    by (simp add: read_pending_approval_def example_env_def)
  have w: "waiting_env = example_env (Some pending_reroute)"
    by (simp add: waiting_env_def)
  have ex: "simulator_control waiting_executor" "active_actions waiting_executor = []"
    "baseline_metrics waiting_executor = None"
    by (simp_all add: waiting_executor_def example_executor_def)
  have pr: "pa_action pending_reroute = example_action ''reroute'' (Some ''HDFC'') 0.5"
    "pa_status pending_reroute = ''pending''"
    by (simp_all add: pending_reroute_def example_pending_def)
  have env0: "sim_calls (example_env x) = []" "pending_file (example_env x) = x" for x
    by (simp_all add: example_env_def)
  show ?thesis
    using p d [of "pending_reroute\<lparr>pa_status := ''approved''\<rparr>"]
      check_and_apply_approval_round_trip
        [where m = "example_metrics 0.8 100 200" and ?t1.0 = 7 and ?t2.0 = 8,
         OF p d [of "pending_reroute\<lparr>pa_status := ''approved''\<rparr>"]]
      check_and_apply_approval_round_trip
        [where m = "example_metrics 0.8 100 200" and ?t1.0 = 7 and ?t2.0 = 8,
         OF p d [of "pending_reroute\<lparr>pa_status := ''rejected''\<rparr>"]]
      check_and_apply_approval_round_trip
        [where m = "example_metrics 0.8 100 200" and ?t1.0 = 7 and ?t2.0 = 8,
         OF p d [of pending_reroute]]
    by (simp add: w pr ex env0 example_action_def Let_def str_opt_def split_beta prod_eq_iff
        read_pending_approval_def)
qed

section \<open>Properties of the Observer\<close>

text \<open>The index computed by \<^verbatim>\<open>int(len(sorted_lat) * 0.95)\<close>, in integer arithmetic.\<close>

lemma floor_95: "\<lfloor>rat_of_nat n * 0.95\<rfloor> = int (n * 19 div 20)"
proof -
  have "rat_of_nat n * 0.95 = rat_of_int (int (n * 19)) / rat_of_int 20"
    by simp
  then have "\<lfloor>rat_of_nat n * 0.95\<rfloor> = int (n * 19) div 20"
    by (simp only: floor_divide_of_int_eq)
  then show ?thesis by (simp add: zdiv_int)
qed

lemma pred_less: "k \<le> n \<Longrightarrow> 0 < n \<Longrightarrow> k - 1 < (n::nat)"
  by linarith

lemma py_index_nat: "k < length xs \<Longrightarrow> py_index xs (int k) = Inr (xs ! k)"
  by (simp add: py_index_def)

text \<open>
  Claim C3, as amended. For a non-empty window of \<open>n\<close> events the p95 latency is the
  element of the sorted latencies at index \<open>floor(n * 0.95) - 1\<close>, clamped to be at least 0
  (the subtraction on naturals below stops at 0); the index is in range, so the read never
  raises.
\<close>

theorem latency_p95_nearest_rank:
  assumes "events \<noteq> []"
  shows "latency_p95 events
           = Inr (sort (map latency_ms events) ! (length events * 19 div 20 - 1))
         \<and> length events * 19 div 20 - 1 < length events"
proof -
  let ?n = "length events"
  have pos: "0 < ?n" using assms by simp
  have "?n * 19 div 20 \<le> ?n * 20 div 20" by (rule div_le_mono) simp
  then have le: "?n * 19 div 20 \<le> ?n" by simp
  have lt: "?n * 19 div 20 - 1 < ?n" by (rule pred_less [OF le pos])
  have idx: "max 0 (\<lfloor>rat_of_nat ?n * 0.95\<rfloor> - 1) = int (?n * 19 div 20 - 1)"
    unfolding floor_95 by (simp add: max_def of_nat_diff)
  have len: "length (sort (map latency_ms events)) = ?n" by simp
  have "latency_p95 events =
          py_index (sort (map latency_ms events))
            (max 0 (\<lfloor>rat_of_nat (length (sort (map latency_ms events))) * 0.95\<rfloor> - 1))"
    using assms by (simp only: latency_p95_def Let_def if_False)
  also have "\<dots> = py_index (sort (map latency_ms events)) (int (?n * 19 div 20 - 1))"
    by (simp only: len idx)
  also have "\<dots> = Inr (sort (map latency_ms events) ! (?n * 19 div 20 - 1))"
    by (rule py_index_nat) (simp only: len lt)
  finally show ?thesis using lt by simp
qed

theorem latency_p95_nearest_rank_witness:
  "[example_event ''HDFC'' 10 SUCCESS 0, example_event ''HDFC'' 20 SUCCESS 1] \<noteq> []
   \<and> latency_p95 [example_event ''HDFC'' 10 SUCCESS 0, example_event ''HDFC'' 20 SUCCESS 1]
       = Inr 10"
  using latency_p95_nearest_rank
    [of "[example_event ''HDFC'' 10 SUCCESS 0, example_event ''HDFC'' 20 SUCCESS 1]"]
  by (simp add: example_event_def)

text \<open>
  Claim C3 as stated takes the element at index \<open>floor(n * 0.95)\<close>. For the two latencies
  10 and 20 that index is 1 and the element 20, while \<^verbatim>\<open>_latency_p95\<close> returns 10.
\<close>

theorem latency_p95_claimed_index_counterexample:
  "latency_p95 [example_event ''HDFC'' 10 SUCCESS 0, example_event ''HDFC'' 20 SUCCESS 1] = Inr 10
   \<and> sort (map latency_ms
        [example_event ''HDFC'' 10 SUCCESS 0, example_event ''HDFC'' 20 SUCCESS 1])
       ! nat (max 0 \<lfloor>rat_of_nat
           (length [example_event ''HDFC'' 10 SUCCESS 0, example_event ''HDFC'' 20 SUCCESS 1])
             * 0.95\<rfloor>) = 20"
  by code_simp

section \<open>Properties of the Reasoner and the Decision engine\<close>

lemma upper_insufficient: "upper uni CAUSE_INSUFFICIENT_SIGNAL = ''INSUFFICIENT_SIGNAL''"
  by (simp add: CAUSE_INSUFFICIENT_SIGNAL_def upper_def is_ascii_def upper_char_def)

lemma contains_insufficient: "str_contains ''INSUFFICIENT_SIGNAL'' ''INSUFFICIENT_SIGNAL''"
  by simp

text \<open>
  Claim C4. For metrics with a sample count below the minimum for action (30) the
  deterministic reasoner returns the cause \<^verbatim>\<open>INSUFFICIENT_SIGNAL\<close> with confidence 0 and
  uncertainty 1; and for every hypothesis with that cause, whatever the metrics and the
  context, \<^verbatim>\<open>decide\<close> returns a trace whose action is the parameterless \<^verbatim>\<open>no_op\<close> with
  risk 0, which \<^verbatim>\<open>execute\<close> accepts without touching the executor, the escalation slot or
  the environment.
\<close>

theorem insufficient_signal_no_op:
  "(sample_count m < 30 \<longrightarrow>
      (\<exists>h. heuristic_hypothesis m = Inr h \<and> cause h = ''INSUFFICIENT_SIGNAL''
           \<and> confidence h = 0 \<and> uncertainty h = Some 1))
   \<and> (cause h = ''INSUFFICIENT_SIGNAL'' \<longrightarrow>
        (\<exists>t. decide uni m' h ctx now = Inr t
             \<and> action_type (action t) = ''no_op'' \<and> target (action t) = None
             \<and> params (action t) = [] \<and> risk_score (action t) = 0
             \<and> trace_risk_score t = 0
             \<and> execute ex env t m' now' = ((True, ''NO_OP''), ex, env)))"
proof -
  have a: "sample_count m < 30 \<Longrightarrow>
      (\<exists>h. heuristic_hypothesis m = Inr h \<and> cause h = ''INSUFFICIENT_SIGNAL''
           \<and> confidence h = 0 \<and> uncertainty h = Some 1)"
    by (simp add: heuristic_hypothesis_def MIN_SAMPLE_FOR_ACT_def CAUSE_INSUFFICIENT_SIGNAL_def)
  have b: "cause h = ''INSUFFICIENT_SIGNAL'' \<Longrightarrow>
       decide uni m' h ctx now =
         Inr \<lparr>hypothesis = Some h, action = no_op_action ''Insufficient signal'',
              trace_risk_score = 0,
              reasoning = ''Hypothesis: '' @ cause h @ '' (confidence=''
                          @ fmt_fixed 2 (confidence h) @ ''). '' @ evidence h
                          @ '' No action taken.'',
              trace_timestamp = now\<rparr>"
    using upper_insufficient [of uni] contains_insufficient
    by (simp add: decide_def CAUSE_INSUFFICIENT_SIGNAL_def)
  show ?thesis
    using a b by (auto simp: no_op_action_def NO_OP_def execute_def)
qed

theorem insufficient_signal_no_op_witness:
  "sample_count (example_metrics 0.9 100 10) < 30
   \<and> heuristic_hypothesis (example_metrics 0.9 100 10)
       = Inr \<lparr>cause = ''INSUFFICIENT_SIGNAL'', confidence = 0,
              evidence = ''Sample count too low (10) for reliable hypothesis.'',
              source = ''heuristic'', uncertainty = Some 1\<rparr>
   \<and> map_sum id (\<lambda>t. (action_type (action t), risk_score (action t), trace_risk_score t))
         (decide id (example_metrics 0.9 100 10)
            (example_hypothesis ''INSUFFICIENT_SIGNAL'' 0 1) None 5)
       = Inr (''no_op'', 0, 0)"
  using insufficient_signal_no_op
    [of "example_metrics 0.9 100 10" "example_hypothesis ''INSUFFICIENT_SIGNAL'' 0 1" id
        "example_metrics 0.9 100 10" None 5 "example_executor [] None None" "example_env None" 6]
  by (auto simp: example_metrics_def example_hypothesis_def heuristic_hypothesis_def
      MIN_SAMPLE_FOR_ACT_def CAUSE_INSUFFICIENT_SIGNAL_def str_int_def str_nat.simps
      digit_char_def)












section \<open>The pending-escalation slot\<close>










section \<open>Reading the metrics twice\<close>

text \<open>\<^verbatim>\<open>str\<close> on integers is injective: different counters give different identifiers.\<close>

lemma digit_char_inj:
  assumes "a < 10" "b < 10" "digit_char a = digit_char b"
  shows "a = b"
proof -
  have d: "distinct ''0123456789''" by simp
  have "''0123456789'' ! a = ''0123456789'' ! b"
    using assms by (simp add: digit_char_def)
  then show ?thesis
    using assms(1,2) d by (simp add: nth_eq_iff_index_eq)
qed

lemma digit_char_mod: "digit_char n = digit_char (n mod 10)"
  by (simp add: digit_char_def)

lemma digit_char_not_minus: "digit_char n \<noteq> CHR ''-''"
proof -
  have "n mod 10 < 10" by simp
  then have "''0123456789'' ! (n mod 10) \<in> set ''0123456789''"
    by (intro nth_mem) simp
  then show ?thesis
    unfolding digit_char_def by auto
qed

lemma str_nat_nonempty: "str_nat n \<noteq> []"
  by (subst str_nat.simps) simp

lemma str_nat_hd: "hd (str_nat n) \<noteq> CHR ''-''"
proof (induction n rule: str_nat.induct)
  case (1 n)
  show ?case
  proof (cases "n < 10")
    case True
    then show ?thesis
      by (subst str_nat.simps) (simp add: digit_char_not_minus)
  next
    case False
    then show ?thesis
      using 1 by (subst str_nat.simps) (simp add: str_nat_nonempty)
  qed
qed

lemma str_nat_inj: "str_nat a = str_nat b \<Longrightarrow> a = b"
proof (induction a arbitrary: b rule: str_nat.induct)
  case (1 n)
  show ?case
  proof (cases "n < 10")
    case True
    show ?thesis
    proof (cases "b < 10")
      case b: True
      have "digit_char n = digit_char b"
        using 1(2) True b by (simp add: str_nat.simps [of n] str_nat.simps [of b])
      then show ?thesis using True b digit_char_inj by blast
    next
      case b: False
      have "[digit_char n] = str_nat (b div 10) @ [digit_char b]"
        using 1(2) True b by (simp add: str_nat.simps [of n] str_nat.simps [of b])
      then show ?thesis using str_nat_nonempty [of "b div 10"] by simp
    qed
  next
    case False
    show ?thesis
    proof (cases "b < 10")
      case b: True
      have "str_nat (n div 10) @ [digit_char n] = [digit_char b]"
        using 1(2) False b by (simp add: str_nat.simps [of n] str_nat.simps [of b])
      then show ?thesis using str_nat_nonempty [of "n div 10"] by simp
    next
      case b: False
      have e: "str_nat (n div 10) @ [digit_char n] = str_nat (b div 10) @ [digit_char b]"
        using 1(2) False b by (simp add: str_nat.simps [of n] str_nat.simps [of b])
      then have "str_nat (n div 10) = str_nat (b div 10)" and "digit_char n = digit_char b"
        by simp_all
      then have "n div 10 = b div 10" and "n mod 10 = b mod 10"
        using 1(1) [OF False] digit_char_inj [of "n mod 10" "b mod 10"]
          digit_char_mod [of n] digit_char_mod [of b]
        by simp_all
      then show ?thesis by (metis div_mult_mod_eq)
    qed
  qed
qed

lemma str_int_inj: "str_int i = str_int j \<Longrightarrow> i = j"
proof -
  assume e: "str_int i = str_int j"
  have neq: "CHR ''-'' # xs \<noteq> str_nat n" for xs n
    using str_nat_hd [of n] by (metis list.sel(1))
  show ?thesis
  proof (cases "i < 0")
    case True
    show ?thesis
    proof (cases "j < 0")
      case j: True
      then have "nat (- i) = nat (- j)"
        using e True str_nat_inj by (simp add: str_int_def)
      then show ?thesis using True j by simp
    next
      case j: False
      then show ?thesis using e True neq by (simp add: str_int_def)
    qed
  next
    case False
    show ?thesis
    proof (cases "j < 0")
      case j: True
      then show ?thesis using e False neq [of "str_nat (nat (- j))" "nat i"]
        by (simp add: str_int_def)
    next
      case j: False
      then have "nat i = nat j"
        using e False str_nat_inj by (simp add: str_int_def)
      then show ?thesis using False j by simp
    qed
  qed
qed

text \<open>The window identifier is the only place where the identifier enters the metrics.\<close>

lemma build_metrics_window_id:
  "map_sum id (\<lambda>m. m\<lparr>window_id := w'\<rparr>) (build_metrics w evs) = build_metrics w' evs"
  by (simp add: build_metrics_def split: list.splits sum.splits)

lemma build_metrics_id: "build_metrics w evs = Inr m \<Longrightarrow> window_id m = w"
  by (auto simp: build_metrics_def split: list.splits sum.splits)

lemma get_current_metrics_eq:
  "get_current_metrics ob =
     (if buffer ob = [] then (Inr None, ob)
      else (map_sum id Some
              (build_metrics (''w-'' @ str_int (window_counter ob + 1))
                 (slice_from (buffer ob) (- window_size ob))),
            ob\<lparr>window_counter := window_counter ob + 1\<rparr>))"
  by (simp add: get_current_metrics_def Let_def)

text \<open>
  Claim C5, as amended. \<^verbatim>\<open>get_partial_metrics\<close> leaves the observer as it is, so two
  successive reads of the same buffer return identical values, window identifier
  included. \<^verbatim>\<open>get_current_metrics\<close> leaves the buffer as it is but advances the window
  counter: two successive reads agree in every field other than the window identifier
  (and raise alike, when they raise), and their identifiers are \<^verbatim>\<open>w-(c+1)\<close> and
  \<^verbatim>\<open>w-(c+2)\<close> for the counter \<open>c\<close> before the first read, which differ.
\<close>

theorem metrics_reads_repeatable:
  "snd (get_partial_metrics ob) = ob
   \<and> get_partial_metrics (snd (get_partial_metrics ob)) = get_partial_metrics ob
   \<and> buffer (snd (get_current_metrics ob)) = buffer ob
   \<and> map_sum id (map_option (\<lambda>m. m\<lparr>window_id := []\<rparr>))
        (fst (get_current_metrics (snd (get_current_metrics ob))))
       = map_sum id (map_option (\<lambda>m. m\<lparr>window_id := []\<rparr>)) (fst (get_current_metrics ob))
   \<and> (\<forall>m1 m2.
         fst (get_current_metrics ob) = Inr (Some m1)
         \<and> fst (get_current_metrics (snd (get_current_metrics ob))) = Inr (Some m2)
         \<longrightarrow> window_id m1 = ''w-'' @ str_int (window_counter ob + 1)
             \<and> window_id m2 = ''w-'' @ str_int (window_counter ob + 2)
             \<and> window_id m1 \<noteq> window_id m2)"
proof (intro conjI allI impI)
  show p: "snd (get_partial_metrics ob) = ob"
    by (simp add: get_partial_metrics_def Let_def)
  show "get_partial_metrics (snd (get_partial_metrics ob)) = get_partial_metrics ob"
    by (simp only: p)
  show "buffer (snd (get_current_metrics ob)) = buffer ob"
    by (simp add: get_current_metrics_eq)
  show "map_sum id (map_option (\<lambda>m. m\<lparr>window_id := []\<rparr>))
        (fst (get_current_metrics (snd (get_current_metrics ob))))
       = map_sum id (map_option (\<lambda>m. m\<lparr>window_id := []\<rparr>)) (fst (get_current_metrics ob))"
  proof -
    have c: "map_sum id (map_option f) (map_sum id Some x) = map_sum id Some (map_sum id f x)"
      for f :: "WindowMetrics \<Rightarrow> WindowMetrics" and x :: "py_error + WindowMetrics"
      by (cases x) simp_all
    show ?thesis
      by (simp add: get_current_metrics_eq c build_metrics_window_id)
  qed
next
  fix m1 m2
  assume a: "fst (get_current_metrics ob) = Inr (Some m1)
         \<and> fst (get_current_metrics (snd (get_current_metrics ob))) = Inr (Some m2)"
  have ne: "buffer ob \<noteq> []"
  proof
    assume "buffer ob = []"
    then show False using a by (simp add: get_current_metrics_eq)
  qed
  have inj: "map_sum id Some x = Inr (Some m) \<Longrightarrow> x = Inr m"
    for x :: "py_error + WindowMetrics" and m
    by (cases x) auto
  have first: "fst (get_current_metrics ob) =
      map_sum id Some (build_metrics (''w-'' @ str_int (window_counter ob + 1))
             (slice_from (buffer ob) (- window_size ob)))"
    using ne by (simp add: get_current_metrics_eq)
  have second: "fst (get_current_metrics (snd (get_current_metrics ob))) =
      map_sum id Some (build_metrics (''w-'' @ str_int (window_counter ob + 2))
             (slice_from (buffer ob) (- window_size ob)))"
    using ne by (simp add: get_current_metrics_eq add.commute)
  have 1: "build_metrics (''w-'' @ str_int (window_counter ob + 1))
             (slice_from (buffer ob) (- window_size ob)) = Inr m1"
    using a by (intro inj) (simp only: first)
  have 2: "build_metrics (''w-'' @ str_int (window_counter ob + 2))
             (slice_from (buffer ob) (- window_size ob)) = Inr m2"
    using a by (intro inj) (simp only: second)
  show w1: "window_id m1 = ''w-'' @ str_int (window_counter ob + 1)"
    using build_metrics_id [OF 1] .
  show w2: "window_id m2 = ''w-'' @ str_int (window_counter ob + 2)"
    using build_metrics_id [OF 2] .
  show "window_id m1 \<noteq> window_id m2"
    unfolding w1 w2 using str_int_inj [of "window_counter ob + 1" "window_counter ob + 2"]
    by auto
qed

theorem metrics_reads_repeatable_witness:
  "get_partial_metrics (snd (get_partial_metrics one_event_observer))
       = get_partial_metrics one_event_observer
   \<and> map_sum id (map_option window_id) (fst (get_partial_metrics one_event_observer))
       = Inr (Some ''partial-1'')
   \<and> buffer (snd (get_current_metrics one_event_observer)) = buffer one_event_observer
   \<and> (\<exists>m1 m2.
         fst (get_current_metrics one_event_observer) = Inr (Some m1)
         \<and> fst (get_current_metrics (snd (get_current_metrics one_event_observer)))
             = Inr (Some m2)
         \<and> window_id m1 \<noteq> window_id m2)"
proof -
  have b: "build_metrics w [example_event ''HDFC'' 120 SUCCESS 1] \<noteq> Inl e" for w e
    by (simp add: build_metrics_def latency_p95_def py_index_def)
  obtain m1 where m1: "fst (get_current_metrics one_event_observer) = Inr (Some m1)"
    using b [of "''w-'' @ str_int 1"]
    by (cases "build_metrics (''w-'' @ str_int 1) [example_event ''HDFC'' 120 SUCCESS 1]")
       (auto simp: get_current_metrics_eq one_event_observer_def example_observer_def
          slice_from_def)
  obtain m2 where
    m2: "fst (get_current_metrics (snd (get_current_metrics one_event_observer)))
           = Inr (Some m2)"
    using b [of "''w-'' @ str_int 2"]
    by (cases "build_metrics (''w-'' @ str_int 2) [example_event ''HDFC'' 120 SUCCESS 1]")
       (auto simp: get_current_metrics_eq one_event_observer_def example_observer_def
          slice_from_def)
  have p: "map_sum id (map_option window_id) (fst (get_partial_metrics one_event_observer))
       = Inr (Some ''partial-1'')"
    by (simp add: one_event_observer_def example_observer_def example_event_def
      get_partial_metrics_def slice_from_def build_metrics_def latency_p95_def py_index_def
      str_nat.simps digit_char_def Let_def)
  show ?thesis
    using metrics_reads_repeatable [of one_event_observer] m1 m2 p by blast
qed

text \<open>
  Claim C5 as stated includes \<^verbatim>\<open>get_current_metrics\<close> and the window identifier. Two
  successive calls on the same one-event buffer return the identifiers \<^verbatim>\<open>w-1\<close> and
  \<^verbatim>\<open>w-2\<close>, so the two results differ.
\<close>

theorem get_current_metrics_window_id_counterexample:
  "buffer (snd (get_current_metrics one_event_observer)) = buffer one_event_observer
   \<and> map_sum id (map_option window_id) (fst (get_current_metrics one_event_observer))
       = Inr (Some ''w-1'')
   \<and> map_sum id (map_option window_id)
        (fst (get_current_metrics (snd (get_current_metrics one_event_observer))))
       = Inr (Some ''w-2'')
   \<and> fst (get_current_metrics (snd (get_current_metrics one_event_observer)))
       \<noteq> fst (get_current_metrics one_event_observer)"
proof -
  have a: "map_sum id (map_option window_id) (fst (get_current_metrics one_event_observer))
       = Inr (Some ''w-1'')"
    by (simp add: one_event_observer_def example_observer_def example_event_def
      get_current_metrics_def slice_from_def build_metrics_def latency_p95_def py_index_def
      str_int_def str_nat.simps digit_char_def Let_def)
  have b: "map_sum id (map_option window_id)
        (fst (get_current_metrics (snd (get_current_metrics one_event_observer))))
       = Inr (Some ''w-2'')"
    by (simp add: one_event_observer_def example_observer_def example_event_def
      get_current_metrics_def slice_from_def build_metrics_def latency_p95_def py_index_def
      str_int_def str_nat.simps digit_char_def Let_def)
  have c: "buffer (snd (get_current_metrics one_event_observer)) = buffer one_event_observer"
    by (simp add: get_current_metrics_def Let_def)
  have "fst (get_current_metrics (snd (get_current_metrics one_event_observer)))
       \<noteq> fst (get_current_metrics one_event_observer)"
    using a b by auto
  then show ?thesis using a b c by blast
qed

section \<open>Debounce in the orchestrator\<close>

text \<open>
  What does hold of the part of \<^verbatim>\<open>run_cycle\<close> after the decision: a proposal that the
  executor does not execute leaves the last-executed key, the last-executed cycle and the
  last-decision timestamp and key as they were; and a proposal equal to the last executed
  one that arrives within the cycle window is skipped with the tag \<^verbatim>\<open>skipped_cooldown\<close>,
  without reaching the executor.
\<close>

lemma act_blocked_keeps_debounce_state:
  assumes "\<not> fst (fst (execute (executor ag) env tr m (t_exec clock)))"
  shows "last_executed_action_key (fst (act ag env m tr g clock)) = last_executed_action_key ag
         \<and> last_executed_cycle (fst (act ag env m tr g clock)) = last_executed_cycle ag
         \<and> last_decision_ts (fst (act ag env m tr g clock)) = last_decision_ts ag
         \<and> last_decision_action_key (fst (act ag env m tr g clock))
             = last_decision_action_key ag"
  using assms by (simp add: act_def Let_def split_beta)

lemma act_cycle_window_skips:
  assumes "last_executed_action_key ag = Some (action_type (action tr), target (action tr))"
    and "cycle_count ag - last_executed_cycle ag \<le> cooldown_cycles ag"
  shows "map_option aw_outcome (actions_latest (snd (act ag env m tr g clock)))
           = Some ''skipped_cooldown''
         \<and> map_option aw_executed (actions_latest (snd (act ag env m tr g clock)))
             = Some False
         \<and> executor (fst (act ag env m tr g clock)) = executor ag
         \<and> sim_calls (snd (act ag env m tr g clock)) = sim_calls env"
  using assms
  by (simp add: act_def Let_def write_action_def write_control_state_of_def
      OUTCOME_SKIPPED_COOLDOWN_def)

text \<open>
  Claim C7, at the input where the source departs from it. \<^verbatim>\<open>run_cycle\<close> sets
  \<^verbatim>\<open>_last_action_executed\<close> to \<^verbatim>\<open>False\<close> on entry, and the wall-clock test
  \<^verbatim>\<open>in_time_cooldown\<close> requires it to be true, so that test never holds. A fresh
  orchestrator executes the reroute of HDFC in cycle 1 at second 100; cycles 2 and 3 decide
  no-op; in cycle 4, at second 100.09, the same proposal arrives, outside the window of two
  cycles and 0.09 seconds after the execution (the wall-clock window is 3 seconds): it is
  executed a second time and recorded with the tag \<^verbatim>\<open>executed\<close>.
\<close>

theorem wall_clock_debounce_not_applied:
  "map_sum id
     (\<lambda>(ag, env). (map_option aw_outcome (actions_latest env),
                    last_executed_action_key ag, last_executed_cycle ag, last_decision_ts ag))
     (then_cycle uni (Inr (fresh_agent, example_env None)) issuer_hypothesis 100)
     = Inr (Some ''executed'', Some (''reroute'', Some ''HDFC''), 1, 100)
   \<and> (100 + 3 * 0.03) - 100 < DEBOUNCE_SEC
   \<and> map_sum id
        (\<lambda>(ag, env). (map_option aw_action_type (actions_latest env),
                       map_option aw_target (actions_latest env),
                       map_option aw_outcome (actions_latest env),
                       map_option aw_executed (actions_latest env),
                       cycle_count ag, last_executed_cycle ag, last_decision_ts ag,
                       length (active_actions (executor ag))))
        (debounce_scenario uni 0.03)
       = Inr (Some ''reroute'', Some (Some ''HDFC''), Some ''executed'', Some True,
              4, 4, 100.09, 2)"
  by code_simp

end
